theory Spec2Isabelle
  imports Complex_Main
begin

section \<open>The ViSQOL manager (src/visqol_manager.cc)\<close>

text \<open>
  A shallow embedding of \<^verbatim>\<open>VisqolManager\<close>: the manager object is a record of its
  member variables, every member function is a function on a \<open>world\<close> (the manager
  together with the ordered trace of what the code does outside itself: log lines and
  calls to the collaborators whose code lives in other files). The collaborators
  (audio loading, alignment, the similarity pipeline, loading the regression model) are
  parameters, collected in the record \<open>env\<close>.

  C++ member names end in an underscore, which is not a legal end of a constant name
  here; the underscore is followed by \<open>m\<close> (\<open>is_initialized_m\<close> is
  \<^verbatim>\<open>is_initialized_\<close>).
\<close>

subsection \<open>Status and StatusOr\<close>

text \<open>The error codes of \<^verbatim>\<open>google::protobuf::util::error::Code\<close>.\<close>

datatype Code =
    OK | CANCELLED | UNKNOWN | INVALID_ARGUMENT | DEADLINE_EXCEEDED | NOT_FOUND
  | ALREADY_EXISTS | PERMISSION_DENIED | UNAUTHENTICATED | RESOURCE_EXHAUSTED
  | FAILED_PRECONDITION | ABORTED | OUT_OF_RANGE | UNIMPLEMENTED | INTERNAL
  | UNAVAILABLE | DATA_LOSS

text \<open>
  \<^verbatim>\<open>Status(code, message)\<close>; the default-constructed \<^verbatim>\<open>Status()\<close> is
  \<open>Status OK []\<close>. A \<^verbatim>\<open>StatusOr<T>\<close> is the sum \<open>Status + T\<close>: \<open>Inl\<close> carries the
  failure, \<open>Inr\<close> the value.
\<close>

datatype Status = Status (error_code: Code) (error_message: string)

definition ok :: "Status \<Rightarrow> bool" where
  "ok st = (error_code st = OK)"

subsection \<open>Signals, components and results\<close>

type_synonym FilePath = string

record ReferenceDegradedPathPair =
  reference :: FilePath
  degraded :: FilePath

text \<open>
  \<^verbatim>\<open>AudioSignal\<close>: the samples and the sample rate (a \<^verbatim>\<open>size_t\<close>, only ever compared
  here, so a natural number). The samples are carried around and never computed with.
\<close>

record AudioSignal =
  data_matrix :: "real list"
  sample_rate :: nat

text \<open>
  Modelled from the spec: \<^verbatim>\<open>AudioSignal::GetDuration\<close> is declared in audio_signal.h,
  which is not among the sources; the spec gives duration = length / sample_rate.
  The C++ value is a double; the model computes with reals. The duration only decides
  whether a warning is logged, never what a function returns. (For a sample rate of 0
  the C++ quotient is an infinity or a NaN and the model's is 0; for two signals that
  both have the sample rate 0 neither logs the duration warning.)
\<close>

definition GetDuration :: "AudioSignal \<Rightarrow> real" where
  "GetDuration s = real (length (data_matrix s)) / real (sample_rate s)"

datatype AnalysisWindow = AnalysisWindow nat real

datatype GammatoneFilterBank = GammatoneFilterBank nat real

datatype SpectrogramBuilder = GammatoneSpectrogramBuilder GammatoneFilterBank bool

datatype PatchCreator = VadPatchCreator nat | ImagePatchCreator nat

datatype SimilarityIndexMeasure = NeurogramSimiliarityIndexMeasure

datatype PatchSelector = ComparisonPatchesSelector SimilarityIndexMeasure

datatype SimilarityToQualityMapper =
    SpeechSimilarityToQualityMapper bool
  | SvrSimilarityToQualityMapper FilePath

record PatchSimilarityResult =
  similarity :: real
  ref_patch_start_time :: real
  ref_patch_end_time :: real
  deg_patch_start_time :: real
  deg_patch_end_time :: real
  freq_band_means :: "real list"

record SimilarityResult =
  moslqo :: real
  vnsim :: real
  fvnsim :: "real list"
  center_freq_bands :: "real list"
  patch_sims :: "PatchSimilarityResult list"

text \<open>The protobuf messages \<^verbatim>\<open>SimilarityResultMsg\<close> and its repeated \<^verbatim>\<open>patch_sims\<close>.\<close>

record PatchSimilarityMsg =
  msg_similarity :: real
  msg_ref_patch_start_time :: real
  msg_ref_patch_end_time :: real
  msg_deg_patch_start_time :: real
  msg_deg_patch_end_time :: real
  msg_freq_band_means :: "real list"

record SimilarityResultMsg =
  msg_reference_filepath :: string
  msg_degraded_filepath :: string
  msg_moslqo :: real
  msg_vnsim :: real
  msg_fvnsim :: "real list"
  msg_center_freq_bands :: "real list"
  msg_patch_sims :: "PatchSimilarityMsg list"

subsection \<open>The manager, the trace and the collaborators\<close>

text \<open>
  The member variables. A \<^verbatim>\<open>std::unique_ptr\<close> is an option: \<open>None\<close> is the null
  pointer a manager holds before \<^verbatim>\<open>Init\<close> has filled it.
\<close>

record VisqolManager =
  use_speech_mode_m :: bool
  use_unscaled_speech_mos_mapping_m :: bool
  patch_creator_m :: "PatchCreator option"
  patch_selector_m :: "PatchSelector option"
  spectrogram_builder_m :: "SpectrogramBuilder option"
  sim_to_qual_m :: "SimilarityToQualityMapper option"
  is_initialized_m :: bool

datatype Severity = INFO | WARNING | ERROR | FATAL

text \<open>
  One constructor for each \<^verbatim>\<open>ABSL_RAW_LOG\<close> call site, carrying the arguments of its
  format string.
\<close>

datatype LogMessage =
    InitFailed string
  | ErrorExecutingViSQOL Status
  | DurationMismatch real real
  | SampleRateAbove16kHz
  | SampleRateNot48kHz

text \<open>
  What the manager does outside itself, in order: a log line, or a call to a
  collaborator (with the arguments of the call).
\<close>

datatype event =
    RAW_LOG Severity LogMessage
  | Call_MapperInit SimilarityToQualityMapper
  | Call_LoadAsMono FilePath
  | Call_GloballyAlign AudioSignal AudioSignal
  | Call_CalculateSimilarity AudioSignal AudioSignal "SpectrogramBuilder option"
      AnalysisWindow "PatchCreator option" "PatchSelector option"
      "SimilarityToQualityMapper option"

record world =
  manager :: VisqolManager
  trace :: "event list"

text \<open>
  The collaborators, whose code is in other files: \<^verbatim>\<open>MiscAudio::LoadAsMono\<close>,
  \<^verbatim>\<open>Alignment::GloballyAlign\<close> (the aligned degraded signal and the lag),
  \<^verbatim>\<open>Visqol::CalculateSimilarity\<close> (it receives the components as raw pointers) and
  \<^verbatim>\<open>SvrSimilarityToQualityMapper::Init\<close> (loading the model file of the mapper).
  Each is an arbitrary function of its arguments: it returns a value and changes neither
  its arguments nor the manager, as the spec describes the components ("no comparison
  mutates shared configuration state"). The files are the same throughout a run.
\<close>

record env =
  LoadAsMono :: "FilePath \<Rightarrow> AudioSignal"
  GloballyAlign :: "AudioSignal \<Rightarrow> AudioSignal \<Rightarrow> AudioSignal \<times> real"
  CalculateSimilarity ::
    "AudioSignal \<Rightarrow> AudioSignal \<Rightarrow> SpectrogramBuilder option \<Rightarrow> AnalysisWindow
      \<Rightarrow> PatchCreator option \<Rightarrow> PatchSelector option
      \<Rightarrow> SimilarityToQualityMapper option \<Rightarrow> Status + SimilarityResult"
  SvrSimilarityToQualityMapper_Init :: "FilePath \<Rightarrow> Status"

definition emit :: "event \<Rightarrow> world \<Rightarrow> world" where
  "emit e w = w\<lparr>trace := trace w @ [e]\<rparr>"

definition this_update :: "(VisqolManager \<Rightarrow> VisqolManager) \<Rightarrow> world \<Rightarrow> world" where
  "this_update f w = w\<lparr>manager := f (manager w)\<rparr>"

subsection \<open>Constants\<close>

definition k16kSampleRate :: nat where "k16kSampleRate = 16000"
definition k48kSampleRate :: nat where "k48kSampleRate = 48000"
definition kPatchSize :: nat where "kPatchSize = 30"
definition kPatchSizeSpeech :: nat where "kPatchSizeSpeech = 20"
definition kNumBandsAudio :: nat where "kNumBandsAudio = 32"
definition kNumBandsSpeech :: nat where "kNumBandsSpeech = 21"
definition kMinimumFreq :: real where "kMinimumFreq = 50"
definition kOverlap :: real where "kOverlap = 0.25"
definition kDurationMismatchTolerance :: real where "kDurationMismatchTolerance = 1.0"

subsection \<open>std::to_string on an unsigned integer\<close>

definition digit_char :: "nat \<Rightarrow> char" where
  "digit_char d = char_of (48 + d)"

function to_string :: "nat \<Rightarrow> string" where
  "to_string n =
     (if n < 10 then [digit_char n] else to_string (n div 10) @ [digit_char (n mod 10)])"
  by pat_completeness auto
termination
  by (relation "measure (\<lambda>n. n)") auto

declare to_string.simps [simp del]

subsection \<open>Init\<close>

definition InitPatchCreator :: "VisqolManager \<Rightarrow> VisqolManager" where
  "InitPatchCreator m =
     (if use_speech_mode_m m
      then m\<lparr>patch_creator_m := Some (VadPatchCreator kPatchSizeSpeech)\<rparr>
      else m\<lparr>patch_creator_m := Some (ImagePatchCreator kPatchSize)\<rparr>)"

definition InitPatchSelector :: "VisqolManager \<Rightarrow> VisqolManager" where
  "InitPatchSelector m =
     m\<lparr>patch_selector_m := Some (ComparisonPatchesSelector NeurogramSimiliarityIndexMeasure)\<rparr>"

definition InitSpectrogramBuilder :: "VisqolManager \<Rightarrow> VisqolManager" where
  "InitSpectrogramBuilder m =
     (if use_speech_mode_m m
      then m\<lparr>spectrogram_builder_m :=
             Some (GammatoneSpectrogramBuilder (GammatoneFilterBank kNumBandsSpeech kMinimumFreq) True)\<rparr>
      else m\<lparr>spectrogram_builder_m :=
             Some (GammatoneSpectrogramBuilder (GammatoneFilterBank kNumBandsAudio kMinimumFreq) False)\<rparr>)"

text \<open>
  Modelled from the spec: \<^verbatim>\<open>SpeechSimilarityToQualityMapper::Init\<close> is declared in
  speech_similarity_to_quality_mapper.h, which is not among the sources; the spec says
  of the speech mapping "No external file dependency; initialization always succeeds."
\<close>

definition SpeechSimilarityToQualityMapper_Init :: "bool \<Rightarrow> Status" where
  "SpeechSimilarityToQualityMapper_Init scale_to_max_mos = Status OK []"

text \<open>The virtual call \<^verbatim>\<open>sim_to_qual_->Init()\<close>, dispatched on the mapper's class.\<close>

fun mapper_Init :: "env \<Rightarrow> SimilarityToQualityMapper \<Rightarrow> Status" where
  "mapper_Init env (SpeechSimilarityToQualityMapper scale_to_max_mos) =
     SpeechSimilarityToQualityMapper_Init scale_to_max_mos"
| "mapper_Init env (SvrSimilarityToQualityMapper model_path) =
     SvrSimilarityToQualityMapper_Init env model_path"

definition InitSimilarityToQualityMapper :: "env \<Rightarrow> FilePath \<Rightarrow> world \<Rightarrow> Status \<times> world" where
  "InitSimilarityToQualityMapper env sim_to_quality_mapper_model w =
     (let mapper =
            (if use_speech_mode_m (manager w)
             then SpeechSimilarityToQualityMapper (\<not> use_unscaled_speech_mos_mapping_m (manager w))
             else SvrSimilarityToQualityMapper sim_to_quality_mapper_model);
          w1 = this_update (\<lambda>m. m\<lparr>sim_to_qual_m := Some mapper\<rparr>) w
      in (mapper_Init env mapper, emit (Call_MapperInit mapper) w1))"

definition Init :: "env \<Rightarrow> FilePath \<Rightarrow> bool \<Rightarrow> bool \<Rightarrow> world \<Rightarrow> Status \<times> world" where
  "Init env sim_to_quality_mapper_model use_speech_mode use_unscaled_speech w =
     (let w1 = this_update (\<lambda>m. m\<lparr>use_speech_mode_m := use_speech_mode\<rparr>) w;
          w2 = this_update (\<lambda>m. m\<lparr>use_unscaled_speech_mos_mapping_m := use_unscaled_speech\<rparr>) w1;
          w3 = this_update InitPatchCreator w2;
          w4 = this_update InitPatchSelector w3;
          w5 = this_update InitSpectrogramBuilder w4;
          (status, w6) = InitSimilarityToQualityMapper env sim_to_quality_mapper_model w5
      in if ok status
         then (status, this_update (\<lambda>m. m\<lparr>is_initialized_m := True\<rparr>) w6)
         else (status, emit (RAW_LOG ERROR (InitFailed (error_message status))) w6))"

subsection \<open>The checks before a comparison\<close>

definition ErrorIfNotInitialized :: "VisqolManager \<Rightarrow> Status" where
  "ErrorIfNotInitialized m =
     (if is_initialized_m m = False
      then Status ABORTED ''VisqolManager must be initialized before use.''
      else Status OK [])"

definition ValidateInputAudio :: "AudioSignal \<Rightarrow> AudioSignal \<Rightarrow> world \<Rightarrow> Status \<times> world" where
  "ValidateInputAudio ref_signal deg_signal w =
     (let ref_duration = GetDuration ref_signal;
          deg_duration = GetDuration deg_signal;
          w1 = (if \<bar>ref_duration - deg_duration\<bar> > kDurationMismatchTolerance
                then emit (RAW_LOG WARNING (DurationMismatch ref_duration deg_duration)) w
                else w)
      in if sample_rate ref_signal \<noteq> sample_rate deg_signal
         then (Status INVALID_ARGUMENT
                 (''Input audio signals have different sample rates! Reference audio sample rate: ''
                  @ to_string (sample_rate ref_signal)
                  @ ''. Degraded audio sample rate: ''
                  @ to_string (sample_rate deg_signal)), w1)
         else if use_speech_mode_m (manager w1)
         then (Status OK [],
               if sample_rate ref_signal > k16kSampleRate
               then emit (RAW_LOG WARNING SampleRateAbove16kHz) w1 else w1)
         else (Status OK [],
               if sample_rate ref_signal \<noteq> k48kSampleRate
               then emit (RAW_LOG WARNING SampleRateNot48kHz) w1 else w1))"

subsection \<open>Run\<close>

definition PopulatePatchMsg :: "PatchSimilarityResult \<Rightarrow> PatchSimilarityMsg" where
  "PopulatePatchMsg patch =
     \<lparr>msg_similarity = similarity patch,
      msg_ref_patch_start_time = ref_patch_start_time patch,
      msg_ref_patch_end_time = ref_patch_end_time patch,
      msg_deg_patch_start_time = deg_patch_start_time patch,
      msg_deg_patch_end_time = deg_patch_end_time patch,
      msg_freq_band_means = foldl (\<lambda>acc each_fbm. acc @ [each_fbm]) [] (freq_band_means patch)\<rparr>"

definition PopulateSimResultMsg :: "SimilarityResult \<Rightarrow> SimilarityResultMsg" where
  "PopulateSimResultMsg sim_result =
     \<lparr>msg_reference_filepath = [],
      msg_degraded_filepath = [],
      msg_moslqo = moslqo sim_result,
      msg_vnsim = vnsim sim_result,
      msg_fvnsim = foldl (\<lambda>acc x. acc @ [x]) [] (fvnsim sim_result),
      msg_center_freq_bands = foldl (\<lambda>acc x. acc @ [x]) [] (center_freq_bands sim_result),
      msg_patch_sims = foldl (\<lambda>acc patch. acc @ [PopulatePatchMsg patch]) [] (patch_sims sim_result)\<rparr>"

text \<open>
  \<^verbatim>\<open>Run(const AudioSignal& ref_signal, AudioSignal& deg_signal)\<close>. The degraded signal is
  passed by non-const reference, so the function returns, next to its result and the
  world, the value the caller's degraded signal holds after the call. The two arguments
  are taken to be distinct objects here; \<open>Run_refs\<close> below is the function on the caller's
  objects, one object passed as both arguments included.
\<close>

definition Run_signals ::
  "env \<Rightarrow> AudioSignal \<Rightarrow> AudioSignal \<Rightarrow> world
    \<Rightarrow> (Status + SimilarityResultMsg) \<times> AudioSignal \<times> world" where
  "Run_signals env ref_signal deg_signal w =
     (let st = ErrorIfNotInitialized (manager w) in
      if \<not> ok st then (Inl st, deg_signal, w)
      else
        (case ValidateInputAudio ref_signal deg_signal w of (st2, w1) \<Rightarrow>
           if \<not> ok st2 then (Inl st2, deg_signal, w1)
           else
             (let w2 = emit (Call_GloballyAlign ref_signal deg_signal) w1;
                  alignment_result = GloballyAlign env ref_signal deg_signal;
                  deg_signal1 = fst alignment_result;
                  window = AnalysisWindow (sample_rate ref_signal) kOverlap;
                  w3 = emit (Call_CalculateSimilarity ref_signal deg_signal1
                              (spectrogram_builder_m (manager w2)) window
                              (patch_creator_m (manager w2)) (patch_selector_m (manager w2))
                              (sim_to_qual_m (manager w2))) w2
              in case CalculateSimilarity env ref_signal deg_signal1
                        (spectrogram_builder_m (manager w2)) window
                        (patch_creator_m (manager w2)) (patch_selector_m (manager w2))
                        (sim_to_qual_m (manager w2)) of
                   Inl st3 \<Rightarrow> (Inl st3, deg_signal1, w3)
                 | Inr sim_result \<Rightarrow> (Inr (PopulateSimResultMsg sim_result), deg_signal1, w3))))"

text \<open>\<^verbatim>\<open>Run(const FilePath& ref_signal_path, const FilePath& deg_signal_path)\<close>.\<close>

definition Run_paths ::
  "env \<Rightarrow> FilePath \<Rightarrow> FilePath \<Rightarrow> world \<Rightarrow> (Status + SimilarityResultMsg) \<times> world" where
  "Run_paths env ref_signal_path deg_signal_path w =
     (let st = ErrorIfNotInitialized (manager w) in
      if \<not> ok st then (Inl st, w)
      else
        (let w1 = emit (Call_LoadAsMono ref_signal_path) w;
             ref_signal = LoadAsMono env ref_signal_path;
             w2 = emit (Call_LoadAsMono deg_signal_path) w1;
             deg_signal = LoadAsMono env deg_signal_path
         in case Run_signals env ref_signal deg_signal w2 of
              (Inl st2, deg_signal1, w3) \<Rightarrow> (Inl st2, w3)
            | (Inr sim_result_msg, deg_signal1, w3) \<Rightarrow>
                (Inr (sim_result_msg\<lparr>msg_reference_filepath := ref_signal_path,
                                     msg_degraded_filepath := deg_signal_path\<rparr>), w3)))"

text \<open>
  \<^verbatim>\<open>Run(const std::vector<ReferenceDegradedPathPair>&)\<close>: the loop over the pairs, with
  the results collected so far; \<^verbatim>\<open>break\<close> returns them.
\<close>

fun Run_batch_loop ::
  "env \<Rightarrow> ReferenceDegradedPathPair list \<Rightarrow> SimilarityResultMsg list \<Rightarrow> world
    \<Rightarrow> SimilarityResultMsg list \<times> world" where
  "Run_batch_loop env [] sim_results w = (sim_results, w)"
| "Run_batch_loop env (signal_pair # rest) sim_results w =
     (case Run_paths env (reference signal_pair) (degraded signal_pair) w of
        (Inr v, w1) \<Rightarrow> Run_batch_loop env rest (sim_results @ [v]) w1
      | (Inl st, w1) \<Rightarrow>
          (let w2 = emit (RAW_LOG ERROR (ErrorExecutingViSQOL st)) w1
           in if error_code st = ABORTED then (sim_results, w2)
              else Run_batch_loop env rest sim_results w2))"

definition Run_batch ::
  "env \<Rightarrow> ReferenceDegradedPathPair list \<Rightarrow> world \<Rightarrow> SimilarityResultMsg list \<times> world" where
  "Run_batch env signals_to_compare w = Run_batch_loop env signals_to_compare [] w"

subsection \<open>The signal-based Run on the caller's objects\<close>

text \<open>
  \<open>Run_signals\<close> is the call on two distinct objects. A caller may also pass one object
  as both arguments, \<^verbatim>\<open>Run(s, s)\<close>; then the assignment to \<^verbatim>\<open>deg_signal\<close> is seen through
  \<^verbatim>\<open>ref_signal\<close> as well. \<open>Run_refs\<close> is the same function with the references made
  explicit: the caller's signals live in a store, the two parameters are addresses, each
  use of a parameter reads the store, and the assignment writes it.
\<close>

type_synonym store = "nat \<Rightarrow> AudioSignal"

definition Run_refs ::
  "env \<Rightarrow> nat \<Rightarrow> nat \<Rightarrow> store \<Rightarrow> world \<Rightarrow> (Status + SimilarityResultMsg) \<times> store \<times> world" where
  "Run_refs env ref_signal deg_signal s w =
     (let st = ErrorIfNotInitialized (manager w) in
      if \<not> ok st then (Inl st, s, w)
      else
        (case ValidateInputAudio (s ref_signal) (s deg_signal) w of (st2, w1) \<Rightarrow>
           if \<not> ok st2 then (Inl st2, s, w1)
           else
             (let w2 = emit (Call_GloballyAlign (s ref_signal) (s deg_signal)) w1;
                  alignment_result = GloballyAlign env (s ref_signal) (s deg_signal);
                  s1 = s(deg_signal := fst alignment_result);
                  window = AnalysisWindow (sample_rate (s1 ref_signal)) kOverlap;
                  w3 = emit (Call_CalculateSimilarity (s1 ref_signal) (s1 deg_signal)
                              (spectrogram_builder_m (manager w2)) window
                              (patch_creator_m (manager w2)) (patch_selector_m (manager w2))
                              (sim_to_qual_m (manager w2))) w2
              in case CalculateSimilarity env (s1 ref_signal) (s1 deg_signal)
                        (spectrogram_builder_m (manager w2)) window
                        (patch_creator_m (manager w2)) (patch_selector_m (manager w2))
                        (sim_to_qual_m (manager w2)) of
                   Inl st3 \<Rightarrow> (Inl st3, s1, w3)
                 | Inr sim_result \<Rightarrow> (Inr (PopulateSimResultMsg sim_result), s1, w3))))"

subsection \<open>A client of the manager\<close>

text \<open>
  Modelled from the spec: the class declaration (visqol_manager.h) is not among the
  sources; the spec's state machine starts in the state Uninitialized, so a newly
  constructed manager has \<^verbatim>\<open>is_initialized_\<close> false and null components.
\<close>

definition new_VisqolManager :: VisqolManager where
  "new_VisqolManager =
     \<lparr>use_speech_mode_m = False, use_unscaled_speech_mos_mapping_m = False,
      patch_creator_m = None, patch_selector_m = None, spectrogram_builder_m = None,
      sim_to_qual_m = None, is_initialized_m = False\<rparr>"

definition start_world :: world where
  "start_world = \<lparr>manager = new_VisqolManager, trace = []\<rparr>"

abbreviation NotInitialized :: Status where
  "NotInitialized \<equiv> Status ABORTED ''VisqolManager must be initialized before use.''"

text \<open>
  A client calls the public member functions one after the other; each call answers with
  what it returns (for the signal-based \<^verbatim>\<open>Run\<close>, also the degraded signal as the call
  leaves it).
\<close>

datatype call =
    Do_Init FilePath bool bool
  | Do_Run_paths FilePath FilePath
  | Do_Run_signals AudioSignal AudioSignal
  | Do_Run_batch "ReferenceDegradedPathPair list"

datatype response =
    Init_returned Status
  | Run_paths_returned "Status + SimilarityResultMsg"
  | Run_signals_returned "Status + SimilarityResultMsg" AudioSignal
  | Run_batch_returned "SimilarityResultMsg list"

fun invoke :: "env \<Rightarrow> call \<Rightarrow> world \<Rightarrow> response \<times> world" where
  "invoke env (Do_Init model_path speech unscaled) w =
     (case Init env model_path speech unscaled w of (st, w1) \<Rightarrow> (Init_returned st, w1))"
| "invoke env (Do_Run_paths ref_path deg_path) w =
     (case Run_paths env ref_path deg_path w of (r, w1) \<Rightarrow> (Run_paths_returned r, w1))"
| "invoke env (Do_Run_signals ref_signal deg_signal) w =
     (case Run_signals env ref_signal deg_signal w of
        (r, deg_signal1, w1) \<Rightarrow> (Run_signals_returned r deg_signal1, w1))"
| "invoke env (Do_Run_batch signals_to_compare) w =
     (case Run_batch env signals_to_compare w of (rs, w1) \<Rightarrow> (Run_batch_returned rs, w1))"

fun invoke_all :: "env \<Rightarrow> call list \<Rightarrow> world \<Rightarrow> response list \<times> world" where
  "invoke_all env [] w = ([], w)"
| "invoke_all env (c # cs) w =
     (case invoke env c w of (r, w1) \<Rightarrow>
        (case invoke_all env cs w1 of (rs, w2) \<Rightarrow> (r # rs, w2)))"

definition Init_succeeded :: "response \<Rightarrow> bool" where
  "Init_succeeded r = (case r of Init_returned st \<Rightarrow> ok st | _ \<Rightarrow> False)"

text \<open>The events a call added to the trace.\<close>

definition new_events :: "world \<Rightarrow> world \<Rightarrow> event list" where
  "new_events w w1 = drop (length (trace w)) (trace w1)"

fun is_alignment_call :: "event \<Rightarrow> bool" where
  "is_alignment_call (Call_GloballyAlign ref_signal deg_signal) = True"
| "is_alignment_call e = False"

text \<open>
  The batch loop up to a given pair: whether the loop is still running after the pairs
  (no comparison among them returned the code \<open>ABORTED\<close>).
\<close>

fun runs_through :: "env \<Rightarrow> ReferenceDegradedPathPair list \<Rightarrow> world \<Rightarrow> bool" where
  "runs_through env [] w = True"
| "runs_through env (signal_pair # rest) w =
     (case Run_paths env (reference signal_pair) (degraded signal_pair) w of
        (Inr v, w1) \<Rightarrow> runs_through env rest w1
      | (Inl st, w1) \<Rightarrow>
          error_code st \<noteq> ABORTED
          \<and> runs_through env rest (emit (RAW_LOG ERROR (ErrorExecutingViSQOL st)) w1))"

text \<open>
  What the spec says of the batch, in its own terms: every pair is compared in turn, each
  failure is logged, and the answer of the batch consists of the successful results.
  \<open>comparisons\<close> gives the outcome of each pair's comparison, in order, and the world
  after them; \<open>successes\<close> keeps the results of the comparisons that succeeded.
\<close>

fun comparisons ::
  "env \<Rightarrow> ReferenceDegradedPathPair list \<Rightarrow> world
    \<Rightarrow> (Status + SimilarityResultMsg) list \<times> world" where
  "comparisons env [] w = ([], w)"
| "comparisons env (signal_pair # rest) w =
     (case Run_paths env (reference signal_pair) (degraded signal_pair) w of (r, w1) \<Rightarrow>
        (case comparisons env rest
                (case r of Inl st \<Rightarrow> emit (RAW_LOG ERROR (ErrorExecutingViSQOL st)) w1
                         | Inr v \<Rightarrow> w1) of
           (rs, w2) \<Rightarrow> (r # rs, w2)))"

fun successes :: "(Status + SimilarityResultMsg) list \<Rightarrow> SimilarityResultMsg list" where
  "successes [] = []"
| "successes (Inr v # rs) = v # successes rs"
| "successes (Inl st # rs) = successes rs"

subsection \<open>Concrete collaborators and inputs\<close>

definition example_signal :: "nat \<Rightarrow> nat \<Rightarrow> AudioSignal" where
  "example_signal rate n = \<lparr>data_matrix = replicate n 0, sample_rate = rate\<rparr>"

definition example_result :: SimilarityResult where
  "example_result =
     \<lparr>moslqo = 4, vnsim = 1, fvnsim = [1], center_freq_bands = [50], patch_sims = []\<rparr>"

text \<open>
  An alignment that pads the degraded signal by one sample, a pipeline that always
  answers \<open>example_result\<close>, one file recorded at 16 kHz among files at 48 kHz, and one
  model file that loads.
\<close>

definition example_env :: env where
  "example_env =
     \<lparr>LoadAsMono = (\<lambda>p. if p = ''16k.wav'' then example_signal 16000 3
                         else example_signal 48000 2),
      GloballyAlign = (\<lambda>ref_signal deg_signal.
                         (deg_signal\<lparr>data_matrix := 0 # data_matrix deg_signal\<rparr>, 1)),
      CalculateSimilarity = (\<lambda>ref_signal deg_signal builder window creator selector mapper.
                               Inr example_result),
      SvrSimilarityToQualityMapper_Init =
        (\<lambda>p. if p = ''model.txt'' then Status OK []
              else Status INVALID_ARGUMENT ''no model'')\<rparr>"

definition audio_world :: world where
  "audio_world = snd (Init example_env ''model.txt'' False False start_world)"

definition speech_world :: world where
  "speech_world = snd (Init example_env [] True False start_world)"

text \<open>
  A pipeline that answers the code \<open>ABORTED\<close> for a reference signal without samples,
  and a file without samples.
\<close>

definition aborting_env :: env where
  "aborting_env =
     \<lparr>LoadAsMono = (\<lambda>p. if p = ''empty.wav'' then example_signal 48000 0
                         else example_signal 48000 2),
      GloballyAlign = (\<lambda>ref_signal deg_signal.
                         (deg_signal\<lparr>data_matrix := 0 # data_matrix deg_signal\<rparr>, 1)),
      CalculateSimilarity = (\<lambda>ref_signal deg_signal builder window creator selector mapper.
                               if data_matrix ref_signal = []
                               then Inl (Status ABORTED ''no samples'')
                               else Inr example_result),
      SvrSimilarityToQualityMapper_Init =
        (\<lambda>p. if p = ''model.txt'' then Status OK []
              else Status INVALID_ARGUMENT ''no model'')\<rparr>"

text \<open>A store in which every object holds the same two samples at 48 kHz.\<close>

definition example_store :: store where
  "example_store = (\<lambda>a. example_signal 48000 2)"

section \<open>Properties\<close>

subsection \<open>The world and the checks\<close>

lemma ErrorIfNotInitialized_ok: "ok (ErrorIfNotInitialized m) = is_initialized_m m"
  by (simp add: ErrorIfNotInitialized_def ok_def)

lemma manager_emit [simp]: "manager (emit e w) = manager w"
  by (simp add: emit_def)

lemma trace_emit [simp]: "trace (emit e w) = trace w @ [e]"
  by (simp add: emit_def)

lemma manager_this_update [simp]: "manager (this_update f w) = f (manager w)"
  by (simp add: this_update_def)

lemma trace_this_update [simp]: "trace (this_update f w) = trace w"
  by (simp add: this_update_def)

lemma ValidateInputAudio_manager:
  "manager (snd (ValidateInputAudio ref_signal deg_signal w)) = manager w"
  by (simp add: ValidateInputAudio_def Let_def)

lemma ValidateInputAudio_status:
  "fst (ValidateInputAudio ref_signal deg_signal w) =
     (if sample_rate ref_signal \<noteq> sample_rate deg_signal
      then Status INVALID_ARGUMENT
             (''Input audio signals have different sample rates! Reference audio sample rate: ''
              @ to_string (sample_rate ref_signal)
              @ ''. Degraded audio sample rate: ''
              @ to_string (sample_rate deg_signal))
      else Status OK [])"
  by (simp add: ValidateInputAudio_def Let_def)

lemma ValidateInputAudio_trace:
  "trace (snd (ValidateInputAudio ref_signal deg_signal w)) =
     trace w
     @ (if \<bar>GetDuration ref_signal - GetDuration deg_signal\<bar> > kDurationMismatchTolerance
        then [RAW_LOG WARNING (DurationMismatch (GetDuration ref_signal) (GetDuration deg_signal))]
        else [])
     @ (if sample_rate ref_signal \<noteq> sample_rate deg_signal then []
        else if use_speech_mode_m (manager w)
        then (if sample_rate ref_signal > k16kSampleRate
              then [RAW_LOG WARNING SampleRateAbove16kHz] else [])
        else (if sample_rate ref_signal \<noteq> k48kSampleRate
              then [RAW_LOG WARNING SampleRateNot48kHz] else []))"
  by (simp add: ValidateInputAudio_def Let_def)

lemma ok_Status [simp]: "ok (Status c msg) = (c = OK)"
  by (simp add: ok_def)

lemma ValidateInputAudio_ok:
  "ok (fst (ValidateInputAudio ref_signal deg_signal w)) =
     (sample_rate ref_signal = sample_rate deg_signal)"
  by (simp add: ValidateInputAudio_status)

lemma Run_signals_uninitialized:
  "\<not> is_initialized_m (manager w) \<Longrightarrow>
   Run_signals env ref_signal deg_signal w = (Inl NotInitialized, deg_signal, w)"
  by (simp add: Run_signals_def ErrorIfNotInitialized_ok) (simp add: ErrorIfNotInitialized_def)

lemma Run_signals_mismatch:
  "is_initialized_m (manager w) \<Longrightarrow> sample_rate ref_signal \<noteq> sample_rate deg_signal \<Longrightarrow>
   Run_signals env ref_signal deg_signal w =
     (Inl (fst (ValidateInputAudio ref_signal deg_signal w)), deg_signal,
      snd (ValidateInputAudio ref_signal deg_signal w))"
  by (simp add: Run_signals_def ErrorIfNotInitialized_ok ValidateInputAudio_ok
      case_prod_beta Let_def)

lemma Run_signals_valid:
  "is_initialized_m (manager w) \<Longrightarrow> sample_rate ref_signal = sample_rate deg_signal \<Longrightarrow>
   Run_signals env ref_signal deg_signal w =
     (map_sum id PopulateSimResultMsg
        (CalculateSimilarity env ref_signal (fst (GloballyAlign env ref_signal deg_signal))
           (spectrogram_builder_m (manager w))
           (AnalysisWindow (sample_rate ref_signal) kOverlap)
           (patch_creator_m (manager w)) (patch_selector_m (manager w))
           (sim_to_qual_m (manager w))),
      fst (GloballyAlign env ref_signal deg_signal),
      emit (Call_CalculateSimilarity ref_signal (fst (GloballyAlign env ref_signal deg_signal))
              (spectrogram_builder_m (manager w))
              (AnalysisWindow (sample_rate ref_signal) kOverlap)
              (patch_creator_m (manager w)) (patch_selector_m (manager w))
              (sim_to_qual_m (manager w)))
        (emit (Call_GloballyAlign ref_signal deg_signal)
           (snd (ValidateInputAudio ref_signal deg_signal w))))"
  by (simp add: Run_signals_def ErrorIfNotInitialized_ok ValidateInputAudio_ok
      ValidateInputAudio_manager case_prod_beta Let_def split: sum.splits)

lemma Run_signals_manager:
  "manager (snd (snd (Run_signals env ref_signal deg_signal w))) = manager w"
proof (cases "is_initialized_m (manager w)")
  case False
  then show ?thesis by (simp add: Run_signals_uninitialized)
next
  case True
  show ?thesis
  proof (cases "sample_rate ref_signal = sample_rate deg_signal")
    case True
    with \<open>is_initialized_m (manager w)\<close> show ?thesis
      by (simp add: Run_signals_valid ValidateInputAudio_manager)
  next
    case False
    with \<open>is_initialized_m (manager w)\<close> show ?thesis
      by (simp add: Run_signals_mismatch ValidateInputAudio_manager)
  qed
qed

lemma Run_paths_uninitialized:
  "\<not> is_initialized_m (manager w) \<Longrightarrow>
   Run_paths env ref_signal_path deg_signal_path w = (Inl NotInitialized, w)"
  by (simp add: Run_paths_def ErrorIfNotInitialized_ok) (simp add: ErrorIfNotInitialized_def)

lemma Run_paths_initialized:
  "is_initialized_m (manager w) \<Longrightarrow>
   Run_paths env ref_signal_path deg_signal_path w =
     (let r = Run_signals env (LoadAsMono env ref_signal_path) (LoadAsMono env deg_signal_path)
                (emit (Call_LoadAsMono deg_signal_path) (emit (Call_LoadAsMono ref_signal_path) w))
      in (map_sum id (\<lambda>sim_result_msg.
                        sim_result_msg\<lparr>msg_reference_filepath := ref_signal_path,
                                       msg_degraded_filepath := deg_signal_path\<rparr>) (fst r),
          snd (snd r)))"
  by (simp add: Run_paths_def ErrorIfNotInitialized_ok Let_def split: prod.splits sum.splits)

lemma Run_paths_manager:
  "manager (snd (Run_paths env ref_signal_path deg_signal_path w)) = manager w"
proof (cases "is_initialized_m (manager w)")
  case False
  then show ?thesis by (simp add: Run_paths_uninitialized)
next
  case True
  then show ?thesis
    by (simp add: Run_paths_initialized Let_def Run_signals_manager)
qed

lemma Run_batch_loop_manager:
  "manager (snd (Run_batch_loop env pairs sim_results w)) = manager w"
proof (induction pairs arbitrary: sim_results w)
  case Nil
  show ?case by simp
next
  case (Cons signal_pair rest)
  obtain r w1 where run: "Run_paths env (reference signal_pair) (degraded signal_pair) w = (r, w1)"
    by (cases "Run_paths env (reference signal_pair) (degraded signal_pair) w")
  have m: "manager w1 = manager w"
    using Run_paths_manager [of env "reference signal_pair" "degraded signal_pair" w] run by simp
  show ?case
    using m run by (cases r) (simp_all add: Let_def Cons.IH)
qed


lemma Run_batch_loop_uninitialized:
  "\<not> is_initialized_m (manager w) \<Longrightarrow>
   Run_batch_loop env (signal_pair # rest) sim_results w =
     (sim_results, emit (RAW_LOG ERROR (ErrorExecutingViSQOL NotInitialized)) w)"
  by (simp add: Run_paths_uninitialized)

lemma Run_batch_uninitialized: "\<not> is_initialized_m (manager w) \<Longrightarrow> fst (Run_batch env pairs w) = []"
  by (cases pairs) (simp_all add: Run_batch_def Run_paths_uninitialized)

lemma Run_batch_manager: "manager (snd (Run_batch env pairs w)) = manager w"
  by (simp add: Run_batch_def Run_batch_loop_manager)

lemma Run_batch_loop_append:
  "runs_through env xs w \<Longrightarrow>
   Run_batch_loop env (xs @ ys) sim_results w =
     Run_batch_loop env ys (fst (Run_batch_loop env xs sim_results w))
       (snd (Run_batch_loop env xs sim_results w))"
proof (induction xs arbitrary: sim_results w)
  case Nil
  show ?case by simp
next
  case (Cons signal_pair rest)
  obtain r w1 where run: "Run_paths env (reference signal_pair) (degraded signal_pair) w = (r, w1)"
    by (cases "Run_paths env (reference signal_pair) (degraded signal_pair) w")
  show ?case
  proof (cases r)
    case (Inl st)
    with Cons.prems run have "error_code st \<noteq> ABORTED"
      and "runs_through env rest (emit (RAW_LOG ERROR (ErrorExecutingViSQOL st)) w1)"
      by simp_all
    then show ?thesis using run Inl by (simp add: Cons.IH)
  next
    case (Inr v)
    with Cons.prems run have "runs_through env rest w1" by simp
    then show ?thesis using run Inr by (simp add: Cons.IH)
  qed
qed

lemma Init_mapper_status:
  "fst (InitSimilarityToQualityMapper env model_path w) =
     (if use_speech_mode_m (manager w) then Status OK []
      else SvrSimilarityToQualityMapper_Init env model_path)"
  by (simp add: InitSimilarityToQualityMapper_def Let_def SpeechSimilarityToQualityMapper_Init_def)

lemma Init_status:
  "fst (Init env model_path speech unscaled w) =
     (if speech then Status OK [] else SvrSimilarityToQualityMapper_Init env model_path)"
  by (simp add: Init_def Let_def case_prod_beta Init_mapper_status
      InitPatchCreator_def InitPatchSelector_def InitSpectrogramBuilder_def)

lemma Init_is_initialized:
  "is_initialized_m (manager (snd (Init env model_path speech unscaled w))) =
     (ok (fst (Init env model_path speech unscaled w)) \<or> is_initialized_m (manager w))"
  by (simp add: Init_def Let_def case_prod_beta InitSimilarityToQualityMapper_def
      InitPatchCreator_def InitPatchSelector_def InitSpectrogramBuilder_def)

lemma invoke_keeps_uninitialized:
  "\<not> is_initialized_m (manager w) \<Longrightarrow> \<not> Init_succeeded (fst (invoke env c w)) \<Longrightarrow>
   \<not> is_initialized_m (manager (snd (invoke env c w)))"
proof (cases c)
  case (Do_Init model_path speech unscaled)
  assume "\<not> is_initialized_m (manager w)" and "\<not> Init_succeeded (fst (invoke env c w))"
  then show ?thesis
    using Do_Init Init_is_initialized [of env model_path speech unscaled w]
    by (simp add: Init_succeeded_def case_prod_beta)
next
  case (Do_Run_paths ref_path deg_path)
  assume "\<not> is_initialized_m (manager w)"
  then show ?thesis using Do_Run_paths by (simp add: case_prod_beta Run_paths_manager)
next
  case (Do_Run_signals ref_signal deg_signal)
  assume "\<not> is_initialized_m (manager w)"
  then show ?thesis using Do_Run_signals by (simp add: case_prod_beta Run_signals_manager)
next
  case (Do_Run_batch pairs)
  assume "\<not> is_initialized_m (manager w)"
  then show ?thesis using Do_Run_batch by (simp add: case_prod_beta Run_batch_manager)
qed

lemma invoke_uninitialized:
  "\<not> is_initialized_m (manager w) \<Longrightarrow>
   (case fst (invoke env c w) of
      Init_returned st \<Rightarrow> True
    | Run_paths_returned r \<Rightarrow> r = Inl NotInitialized
    | Run_signals_returned r deg_signal \<Rightarrow> r = Inl NotInitialized
    | Run_batch_returned rs \<Rightarrow> rs = [])"
  by (cases c)
    (simp_all add: case_prod_beta Run_paths_uninitialized Run_signals_uninitialized
      Run_batch_uninitialized)

lemma invoke_all_length: "length (fst (invoke_all env calls w)) = length calls"
  by (induction calls arbitrary: w) (simp_all add: case_prod_beta)

subsection \<open>The concrete collaborators and inputs\<close>

lemma start_world_uninitialized: "\<not> is_initialized_m (manager start_world)"
  by (simp add: start_world_def new_VisqolManager_def)

lemma example_model_loads:
  "SvrSimilarityToQualityMapper_Init example_env ''model.txt'' = Status OK []"
  by (simp add: example_env_def)

lemma example_model_missing:
  "SvrSimilarityToQualityMapper_Init example_env ''none'' = Status INVALID_ARGUMENT ''no model''"
  by (simp add: example_env_def)

lemma audio_world_manager:
  "manager audio_world =
     \<lparr>use_speech_mode_m = False, use_unscaled_speech_mos_mapping_m = False,
      patch_creator_m = Some (ImagePatchCreator 30),
      patch_selector_m = Some (ComparisonPatchesSelector NeurogramSimiliarityIndexMeasure),
      spectrogram_builder_m = Some (GammatoneSpectrogramBuilder (GammatoneFilterBank 32 50) False),
      sim_to_qual_m = Some (SvrSimilarityToQualityMapper ''model.txt''),
      is_initialized_m = True\<rparr>"
  by (simp add: audio_world_def Init_def Let_def InitSimilarityToQualityMapper_def
      InitPatchCreator_def InitPatchSelector_def InitSpectrogramBuilder_def
      start_world_def new_VisqolManager_def example_model_loads
      kPatchSize_def kNumBandsAudio_def kMinimumFreq_def)

lemma audio_world_trace:
  "trace audio_world = [Call_MapperInit (SvrSimilarityToQualityMapper ''model.txt'')]"
  by (simp add: audio_world_def Init_def Let_def InitSimilarityToQualityMapper_def
      InitPatchCreator_def InitPatchSelector_def InitSpectrogramBuilder_def
      start_world_def new_VisqolManager_def example_model_loads)

lemma example_calls_responses:
  "fst (invoke_all example_env
          [Do_Run_paths ''ref.wav'' ''deg.wav'', Do_Init ''none'' False False,
           Do_Run_signals (example_signal 48000 2) (example_signal 48000 2)] start_world) =
     [Run_paths_returned (Inl NotInitialized),
      Init_returned (Status INVALID_ARGUMENT ''no model''),
      Run_signals_returned (Inl NotInitialized) (example_signal 48000 2)]"
proof -
  let ?w1 = "snd (Init example_env ''none'' False False start_world)"
  have st: "fst (Init example_env ''none'' False False start_world) = Status INVALID_ARGUMENT ''no model''"
    by (simp add: Init_status example_model_missing)
  have un: "\<not> is_initialized_m (manager ?w1)"
    by (simp add: Init_is_initialized st start_world_uninitialized)
  show ?thesis
    using st un
    by (simp add: case_prod_beta Run_paths_uninitialized [OF start_world_uninitialized]
        Run_signals_uninitialized [OF un])
qed

section \<open>The claims\<close>

subsection \<open>C1: comparisons are rejected until an Init call has succeeded\<close>

text \<open>
  Claim C1. A client starts with a manager that is not initialized and makes any
  sequence of calls (\<^verbatim>\<open>Init\<close>, path-based \<^verbatim>\<open>Run\<close>, signal-based \<^verbatim>\<open>Run\<close>, batch
  \<^verbatim>\<open>Run\<close>). Take the call at any position \<open>i\<close> such that no \<^verbatim>\<open>Init\<close> call before it
  has succeeded (there was none, or each one's mapper initialization failed). If that
  call is a comparison, it returns the failure \<open>NotInitialized\<close> (code \<open>ABORTED\<close>) and no
  result; a batch call returns no results. So every comparison is rejected until the
  first successful \<^verbatim>\<open>Init\<close>.
\<close>

theorem comparison_rejected_until_Init_succeeds:
  assumes "\<not> is_initialized_m (manager w)"
    and "i < length calls"
    and "\<forall>j<i. \<not> Init_succeeded (fst (invoke_all env calls w) ! j)"
  shows "case fst (invoke_all env calls w) ! i of
           Init_returned st \<Rightarrow> True
         | Run_paths_returned r \<Rightarrow> r = Inl NotInitialized
         | Run_signals_returned r deg_signal \<Rightarrow> r = Inl NotInitialized
         | Run_batch_returned rs \<Rightarrow> rs = []"
  using assms
proof (induction calls arbitrary: w i)
  case Nil
  then show ?case by simp
next
  case (Cons c cs)
  show ?case
  proof (cases i)
    case 0
    then show ?thesis
      using invoke_uninitialized [OF Cons.prems(1), of env c] by (simp add: case_prod_beta)
  next
    case (Suc k)
    have first: "\<not> Init_succeeded (fst (invoke env c w))"
      using Cons.prems(3) Suc by (auto simp: case_prod_beta dest: spec [of _ 0])
    have still: "\<not> is_initialized_m (manager (snd (invoke env c w)))"
      using invoke_keeps_uninitialized [OF Cons.prems(1) first] .
    have k: "k < length cs" using Cons.prems(2) Suc by simp
    have rest: "\<forall>j<k. \<not> Init_succeeded (fst (invoke_all env cs (snd (invoke env c w))) ! j)"
    proof (intro allI impI)
      fix j assume "j < k"
      then have "Suc j < i" using Suc by simp
      with Cons.prems(3) show "\<not> Init_succeeded (fst (invoke_all env cs (snd (invoke env c w))) ! j)"
        by (auto simp: case_prod_beta dest: spec [of _ "Suc j"])
    qed
    show ?thesis
      using Cons.IH [OF still k rest] Suc by (simp add: case_prod_beta)
  qed
qed

theorem comparison_rejected_until_Init_succeeds_witness:
  "\<not> is_initialized_m (manager start_world)
   \<and> \<not> Init_succeeded (Run_paths_returned (Inl NotInitialized))
   \<and> \<not> Init_succeeded (Init_returned (Status INVALID_ARGUMENT ''no model''))
   \<and> fst (invoke_all example_env
            [Do_Run_paths ''ref.wav'' ''deg.wav'', Do_Init ''none'' False False,
             Do_Run_signals (example_signal 48000 2) (example_signal 48000 2)] start_world) ! 2
       = Run_signals_returned (Inl NotInitialized) (example_signal 48000 2)"
proof -
  let ?calls = "[Do_Run_paths ''ref.wav'' ''deg.wav'', Do_Init ''none'' False False,
                 Do_Run_signals (example_signal 48000 2) (example_signal 48000 2)]"
  have before: "\<forall>j<2. \<not> Init_succeeded (fst (invoke_all example_env ?calls start_world) ! j)"
    unfolding example_calls_responses
    by (auto simp: less_Suc_eq numeral_2_eq_2 Init_succeeded_def)
  have "case fst (invoke_all example_env ?calls start_world) ! 2 of
           Init_returned st \<Rightarrow> True
         | Run_paths_returned r \<Rightarrow> r = Inl NotInitialized
         | Run_signals_returned r deg_signal \<Rightarrow> r = Inl NotInitialized
         | Run_batch_returned rs \<Rightarrow> rs = []"
    by (rule comparison_rejected_until_Init_succeeds [OF start_world_uninitialized _ before]) simp
  then show ?thesis
    unfolding example_calls_responses
    by (simp add: start_world_uninitialized Init_succeeded_def)
qed

subsection \<open>C10: the path-based Run checks initialization before it loads a file\<close>

text \<open>
  Claim C10. On a manager that is not initialized, the path-based \<^verbatim>\<open>Run\<close> returns
  \<open>NotInitialized\<close> and leaves the world as it found it: the trace gains no event, so
  neither the reference nor the degraded file was loaded.
\<close>

theorem Run_paths_checks_initialization_first:
  assumes "\<not> is_initialized_m (manager w)"
  shows "Run_paths env ref_signal_path deg_signal_path w = (Inl NotInitialized, w)
         \<and> new_events w (snd (Run_paths env ref_signal_path deg_signal_path w)) = []"
  using assms by (simp add: Run_paths_uninitialized new_events_def)

theorem Run_paths_checks_initialization_first_witness:
  "\<not> is_initialized_m (manager start_world)
   \<and> Run_paths example_env ''ref.wav'' ''deg.wav'' start_world = (Inl NotInitialized, start_world)
   \<and> new_events start_world (snd (Run_paths example_env ''ref.wav'' ''deg.wav'' start_world)) = []"
  using Run_paths_checks_initialization_first
          [OF start_world_uninitialized, of example_env "''ref.wav''" "''deg.wav''"]
        start_world_uninitialized
  by (simp add: new_events_def)

subsection \<open>C9: a call that fails a check leaves the degraded signal alone\<close>

lemma new_events_eq: "trace w1 = trace w @ es \<Longrightarrow> new_events w w1 = es"
  by (simp add: new_events_def)

lemma ValidateInputAudio_new_events:
  "new_events w (snd (ValidateInputAudio ref_signal deg_signal w)) =
     (if \<bar>GetDuration ref_signal - GetDuration deg_signal\<bar> > kDurationMismatchTolerance
      then [RAW_LOG WARNING (DurationMismatch (GetDuration ref_signal) (GetDuration deg_signal))]
      else [])
     @ (if sample_rate ref_signal \<noteq> sample_rate deg_signal then []
        else if use_speech_mode_m (manager w)
        then (if sample_rate ref_signal > k16kSampleRate
              then [RAW_LOG WARNING SampleRateAbove16kHz] else [])
        else (if sample_rate ref_signal \<noteq> k48kSampleRate
              then [RAW_LOG WARNING SampleRateNot48kHz] else []))"
  by (rule new_events_eq) (rule ValidateInputAudio_trace)

lemma Run_signals_valid_new_events:
  assumes "is_initialized_m (manager w)" and "sample_rate ref_signal = sample_rate deg_signal"
  shows "new_events w (snd (snd (Run_signals env ref_signal deg_signal w))) =
           new_events w (snd (ValidateInputAudio ref_signal deg_signal w))
           @ [Call_GloballyAlign ref_signal deg_signal,
              Call_CalculateSimilarity ref_signal (fst (GloballyAlign env ref_signal deg_signal))
                (spectrogram_builder_m (manager w))
                (AnalysisWindow (sample_rate ref_signal) kOverlap)
                (patch_creator_m (manager w)) (patch_selector_m (manager w))
                (sim_to_qual_m (manager w))]"
  by (rule new_events_eq)
    (simp add: Run_signals_valid [OF assms] ValidateInputAudio_trace ValidateInputAudio_new_events)

lemma valid_call_runs_alignment:
  assumes "is_initialized_m (manager w)" and "sample_rate ref_signal = sample_rate deg_signal"
  shows "list_ex is_alignment_call
           (new_events w (snd (snd (Run_signals env ref_signal deg_signal w))))"
  by (simp add: Run_signals_valid_new_events [OF assms])

lemma audio_world_initialized: "is_initialized_m (manager audio_world)"
  by (simp add: audio_world_manager)

lemma example_rates_differ:
  "sample_rate (example_signal 48000 2) \<noteq> sample_rate (example_signal 16000 3)"
  by (simp add: example_signal_def)

text \<open>
  Claim C9. When the manager is not initialized or the two sample rates differ, the
  signal-based \<^verbatim>\<open>Run\<close> returns the error (\<open>NotInitialized\<close>, or else the failure of the
  validation), the caller's degraded signal is what it was, and no call to
  \<^verbatim>\<open>Alignment::GloballyAlign\<close> is among the events the call added to the trace.
\<close>

theorem failing_checks_return_before_alignment:
  assumes "\<not> is_initialized_m (manager w) \<or> sample_rate ref_signal \<noteq> sample_rate deg_signal"
  shows "fst (Run_signals env ref_signal deg_signal w) =
           Inl (if is_initialized_m (manager w)
                then fst (ValidateInputAudio ref_signal deg_signal w) else NotInitialized)
         \<and> fst (snd (Run_signals env ref_signal deg_signal w)) = deg_signal
         \<and> \<not> list_ex is_alignment_call
               (new_events w (snd (snd (Run_signals env ref_signal deg_signal w))))"
proof (cases "is_initialized_m (manager w)")
  case False
  then show ?thesis
    by (simp add: Run_signals_uninitialized new_events_def)
next
  case True
  with assms have mismatch: "sample_rate ref_signal \<noteq> sample_rate deg_signal" by simp
  have "\<not> list_ex is_alignment_call
            (new_events w (snd (ValidateInputAudio ref_signal deg_signal w)))"
    by (simp add: ValidateInputAudio_new_events mismatch)
  then show ?thesis
    using True by (simp add: Run_signals_mismatch [OF True mismatch])
qed

theorem failing_checks_return_before_alignment_witness:
  "\<not> is_initialized_m (manager start_world)
   \<and> fst (snd (Run_signals example_env (example_signal 48000 2) (example_signal 48000 2)
                 start_world)) = example_signal 48000 2
   \<and> is_initialized_m (manager audio_world)
   \<and> sample_rate (example_signal 48000 2) \<noteq> sample_rate (example_signal 16000 3)
   \<and> fst (snd (Run_signals example_env (example_signal 48000 2) (example_signal 16000 3)
                 audio_world)) = example_signal 16000 3
   \<and> \<not> list_ex is_alignment_call
         (new_events audio_world
            (snd (snd (Run_signals example_env (example_signal 48000 2) (example_signal 16000 3)
                         audio_world))))"
  using failing_checks_return_before_alignment
          [of start_world "example_signal 48000 2" "example_signal 48000 2" example_env]
        failing_checks_return_before_alignment
          [of audio_world "example_signal 48000 2" "example_signal 16000 3" example_env]
        start_world_uninitialized audio_world_initialized example_rates_differ
  by simp

subsection \<open>C3: mismatched sample rates\<close>

lemma Run_paths_mismatch:
  assumes "is_initialized_m (manager w)"
    and "sample_rate (LoadAsMono env ref_signal_path) \<noteq> sample_rate (LoadAsMono env deg_signal_path)"
  shows "fst (Run_paths env ref_signal_path deg_signal_path w) =
           Inl (fst (ValidateInputAudio (LoadAsMono env ref_signal_path)
                       (LoadAsMono env deg_signal_path) w))"
proof -
  let ?w2 = "emit (Call_LoadAsMono deg_signal_path) (emit (Call_LoadAsMono ref_signal_path) w)"
  have init: "is_initialized_m (manager ?w2)" using assms(1) by simp
  show ?thesis
    by (simp add: Run_paths_initialized [OF assms(1)] Let_def
        Run_signals_mismatch [OF init assms(2)] ValidateInputAudio_status)
qed

lemma example_files_differ:
  "sample_rate (LoadAsMono example_env ''ref.wav'') \<noteq> sample_rate (LoadAsMono example_env ''16k.wav'')"
  by (simp add: example_env_def example_signal_def)

text \<open>
  Claim C3, as stated, fails: it promises \<open>INVALID_ARGUMENT\<close> for every pair of signals
  with different sample rates, but on a manager that is not initialized the comparison
  returns \<open>NotInitialized\<close> (code \<open>ABORTED\<close>) for such a pair, because the initialization
  check comes first.
\<close>

theorem mismatched_rates_counterexample:
  "sample_rate (example_signal 48000 2) \<noteq> sample_rate (example_signal 16000 3)
   \<and> fst (Run_signals example_env (example_signal 48000 2) (example_signal 16000 3) start_world)
       = Inl NotInitialized
   \<and> error_code NotInitialized \<noteq> INVALID_ARGUMENT"
  by (simp add: Run_signals_uninitialized [OF start_world_uninitialized] example_rates_differ)

text \<open>
  Claim C3, amended. For signals whose sample rates differ, the validation returns
  \<open>INVALID_ARGUMENT\<close>; the comparison (signal-based, or path-based on the loaded signals)
  returns a failure and never a result: \<open>INVALID_ARGUMENT\<close> on an initialized manager,
  \<open>NotInitialized\<close> otherwise. When the sample rates are equal, the validation returns
  no error.
\<close>

theorem mismatched_sample_rates_are_rejected:
  "(sample_rate ref_signal \<noteq> sample_rate deg_signal \<longrightarrow>
      error_code (fst (ValidateInputAudio ref_signal deg_signal w)) = INVALID_ARGUMENT
      \<and> (\<exists>msg. fst (Run_signals env ref_signal deg_signal w) =
                  Inl (if is_initialized_m (manager w) then Status INVALID_ARGUMENT msg
                       else NotInitialized)))
   \<and> (sample_rate (LoadAsMono env ref_signal_path) \<noteq> sample_rate (LoadAsMono env deg_signal_path) \<longrightarrow>
        (\<exists>msg. fst (Run_paths env ref_signal_path deg_signal_path w) =
                  Inl (if is_initialized_m (manager w) then Status INVALID_ARGUMENT msg
                       else NotInitialized)))
   \<and> (sample_rate ref_signal = sample_rate deg_signal \<longrightarrow>
        fst (ValidateInputAudio ref_signal deg_signal w) = Status OK [])"
proof (intro conjI impI)
  assume "sample_rate ref_signal \<noteq> sample_rate deg_signal"
  then show "error_code (fst (ValidateInputAudio ref_signal deg_signal w)) = INVALID_ARGUMENT"
    by (simp add: ValidateInputAudio_status)
next
  assume mismatch: "sample_rate ref_signal \<noteq> sample_rate deg_signal"
  show "\<exists>msg. fst (Run_signals env ref_signal deg_signal w) =
                Inl (if is_initialized_m (manager w) then Status INVALID_ARGUMENT msg
                     else NotInitialized)"
  proof (cases "is_initialized_m (manager w)")
    case True
    then show ?thesis
      by (simp add: Run_signals_mismatch [OF True mismatch] ValidateInputAudio_status mismatch)
  next
    case False
    then show ?thesis by (simp add: Run_signals_uninitialized)
  qed
next
  assume mismatch:
    "sample_rate (LoadAsMono env ref_signal_path) \<noteq> sample_rate (LoadAsMono env deg_signal_path)"
  show "\<exists>msg. fst (Run_paths env ref_signal_path deg_signal_path w) =
                Inl (if is_initialized_m (manager w) then Status INVALID_ARGUMENT msg
                     else NotInitialized)"
  proof (cases "is_initialized_m (manager w)")
    case True
    then show ?thesis
      by (simp add: Run_paths_mismatch [OF True mismatch] ValidateInputAudio_status mismatch)
  next
    case False
    then show ?thesis by (simp add: Run_paths_uninitialized)
  qed
next
  assume "sample_rate ref_signal = sample_rate deg_signal"
  then show "fst (ValidateInputAudio ref_signal deg_signal w) = Status OK []"
    by (simp add: ValidateInputAudio_status)
qed

theorem mismatched_sample_rates_are_rejected_witness:
  "sample_rate (example_signal 48000 2) \<noteq> sample_rate (example_signal 16000 3)
   \<and> error_code (fst (ValidateInputAudio (example_signal 48000 2) (example_signal 16000 3)
                        audio_world)) = INVALID_ARGUMENT
   \<and> is_initialized_m (manager audio_world)
   \<and> (\<exists>msg. fst (Run_signals example_env (example_signal 48000 2) (example_signal 16000 3)
                    audio_world) = Inl (Status INVALID_ARGUMENT msg))
   \<and> sample_rate (LoadAsMono example_env ''ref.wav'') \<noteq> sample_rate (LoadAsMono example_env ''16k.wav'')
   \<and> (\<exists>msg. fst (Run_paths example_env ''ref.wav'' ''16k.wav'' audio_world) =
               Inl (Status INVALID_ARGUMENT msg))
   \<and> sample_rate (example_signal 48000 2) = sample_rate (example_signal 48000 3)
   \<and> fst (ValidateInputAudio (example_signal 48000 2) (example_signal 48000 3) audio_world)
       = Status OK []"
  using mismatched_sample_rates_are_rejected
          [of "example_signal 48000 2" "example_signal 16000 3" audio_world example_env
              "''ref.wav''" "''16k.wav''"]
        mismatched_sample_rates_are_rejected
          [of "example_signal 48000 2" "example_signal 48000 3" audio_world example_env
              "''ref.wav''" "''16k.wav''"]
        example_rates_differ example_files_differ audio_world_initialized
  by (simp add: example_signal_def)

subsection \<open>C4: what a comparison changes\<close>

lemma Run_refs_uninitialized:
  "\<not> is_initialized_m (manager w) \<Longrightarrow>
   Run_refs env ref_signal deg_signal s w = (Inl NotInitialized, s, w)"
  by (simp add: Run_refs_def ErrorIfNotInitialized_ok) (simp add: ErrorIfNotInitialized_def)

lemma Run_refs_mismatch:
  "is_initialized_m (manager w) \<Longrightarrow> sample_rate (s ref_signal) \<noteq> sample_rate (s deg_signal) \<Longrightarrow>
   Run_refs env ref_signal deg_signal s w =
     (Inl (fst (ValidateInputAudio (s ref_signal) (s deg_signal) w)), s,
      snd (ValidateInputAudio (s ref_signal) (s deg_signal) w))"
  by (simp add: Run_refs_def ErrorIfNotInitialized_ok ValidateInputAudio_ok
      case_prod_beta Let_def)

lemma Run_refs_valid:
  "is_initialized_m (manager w) \<Longrightarrow> sample_rate (s ref_signal) = sample_rate (s deg_signal) \<Longrightarrow>
   Run_refs env ref_signal deg_signal s w =
     (let s1 = s(deg_signal := fst (GloballyAlign env (s ref_signal) (s deg_signal)));
          window = AnalysisWindow (sample_rate (s1 ref_signal)) kOverlap
      in (map_sum id PopulateSimResultMsg
            (CalculateSimilarity env (s1 ref_signal) (s1 deg_signal)
               (spectrogram_builder_m (manager w)) window
               (patch_creator_m (manager w)) (patch_selector_m (manager w))
               (sim_to_qual_m (manager w))),
          s1,
          emit (Call_CalculateSimilarity (s1 ref_signal) (s1 deg_signal)
                  (spectrogram_builder_m (manager w)) window
                  (patch_creator_m (manager w)) (patch_selector_m (manager w))
                  (sim_to_qual_m (manager w)))
            (emit (Call_GloballyAlign (s ref_signal) (s deg_signal))
               (snd (ValidateInputAudio (s ref_signal) (s deg_signal) w)))))"
  by (simp add: Run_refs_def ErrorIfNotInitialized_ok ValidateInputAudio_ok
      ValidateInputAudio_manager case_prod_beta Let_def split: sum.splits)

lemma Run_refs_manager:
  "manager (snd (snd (Run_refs env ref_signal deg_signal s w))) = manager w"
proof (cases "is_initialized_m (manager w)")
  case False
  then show ?thesis by (simp add: Run_refs_uninitialized)
next
  case True
  show ?thesis
  proof (cases "sample_rate (s ref_signal) = sample_rate (s deg_signal)")
    case True
    with \<open>is_initialized_m (manager w)\<close> show ?thesis
      by (simp add: Run_refs_valid Let_def ValidateInputAudio_manager)
  next
    case False
    with \<open>is_initialized_m (manager w)\<close> show ?thesis
      by (simp add: Run_refs_mismatch ValidateInputAudio_manager)
  qed
qed

lemma Run_refs_store:
  "fst (snd (Run_refs env ref_signal deg_signal s w)) =
     (if is_initialized_m (manager w) \<and> sample_rate (s ref_signal) = sample_rate (s deg_signal)
      then s(deg_signal := fst (GloballyAlign env (s ref_signal) (s deg_signal))) else s)"
proof (cases "is_initialized_m (manager w)")
  case False
  then show ?thesis by (simp add: Run_refs_uninitialized)
next
  case True
  show ?thesis
  proof (cases "sample_rate (s ref_signal) = sample_rate (s deg_signal)")
    case True
    with \<open>is_initialized_m (manager w)\<close> show ?thesis
      by (simp add: Run_refs_valid Let_def)
  next
    case False
    with \<open>is_initialized_m (manager w)\<close> show ?thesis
      by (simp add: Run_refs_mismatch)
  qed
qed

lemma Run_refs_distinct:
  assumes "ref_signal \<noteq> deg_signal"
  shows "Run_refs env ref_signal deg_signal s w =
           (fst (Run_signals env (s ref_signal) (s deg_signal) w),
            s(deg_signal := fst (snd (Run_signals env (s ref_signal) (s deg_signal) w))),
            snd (snd (Run_signals env (s ref_signal) (s deg_signal) w)))"
proof (cases "is_initialized_m (manager w)")
  case False
  then show ?thesis by (simp add: Run_refs_uninitialized Run_signals_uninitialized)
next
  case True
  show ?thesis
  proof (cases "sample_rate (s ref_signal) = sample_rate (s deg_signal)")
    case True
    with \<open>is_initialized_m (manager w)\<close> assms show ?thesis
      by (simp add: Run_refs_valid Run_signals_valid Let_def)
  next
    case False
    with \<open>is_initialized_m (manager w)\<close> show ?thesis
      by (simp add: Run_refs_mismatch Run_signals_mismatch)
  qed
qed

text \<open>
  Claim C4, as stated, fails in its first half: the signal-based \<^verbatim>\<open>Run\<close> takes the
  degraded signal by non-const reference and assigns the aligned signal to it, so the
  caller sees its degraded signal changed. With an alignment that pads by one sample, a
  two-sample degraded signal comes back with three samples.
\<close>

theorem degraded_signal_counterexample:
  "is_initialized_m (manager audio_world)
   \<and> sample_rate (example_signal 48000 2) = sample_rate (example_signal 48000 2)
   \<and> fst (snd (Run_signals example_env (example_signal 48000 2) (example_signal 48000 2)
                 audio_world)) = example_signal 48000 3
   \<and> example_signal 48000 3 \<noteq> example_signal 48000 2"
  by (simp add: Run_signals_valid [OF audio_world_initialized] audio_world_initialized)
    (simp add: example_env_def example_signal_def numeral_3_eq_3 numeral_2_eq_2)

text \<open>
  Claim C4, amended. No comparison call (signal-based, path-based or batch) changes a
  member variable of the manager. The signal-based call overwrites the caller's degraded
  signal with the aligned signal that \<^verbatim>\<open>Alignment::GloballyAlign\<close> returns, once the
  initialization check and the sample-rate check have passed, and leaves it as it was
  otherwise. It writes no other object: every signal of the caller other than the one
  passed as degraded signal keeps its value, so the reference signal is unchanged
  whenever it is a different object (and then the call is the one \<open>Run_signals\<close>
  describes); passed as both arguments, one object is overwritten like any degraded
  signal.
\<close>

theorem Run_changes_only_the_degraded_signal:
  "manager (snd (snd (Run_signals env ref_signal deg_signal w))) = manager w
   \<and> manager (snd (Run_paths env ref_signal_path deg_signal_path w)) = manager w
   \<and> manager (snd (Run_batch env signals_to_compare w)) = manager w
   \<and> fst (snd (Run_signals env ref_signal deg_signal w)) =
       (if is_initialized_m (manager w) \<and> sample_rate ref_signal = sample_rate deg_signal
        then fst (GloballyAlign env ref_signal deg_signal) else deg_signal)
   \<and> manager (snd (snd (Run_refs env ref_addr deg_addr s w))) = manager w
   \<and> fst (snd (Run_refs env ref_addr deg_addr s w)) =
       (if is_initialized_m (manager w) \<and> sample_rate (s ref_addr) = sample_rate (s deg_addr)
        then s(deg_addr := fst (GloballyAlign env (s ref_addr) (s deg_addr))) else s)
   \<and> (\<forall>a. a \<noteq> deg_addr \<longrightarrow> fst (snd (Run_refs env ref_addr deg_addr s w)) a = s a)
   \<and> (ref_addr \<noteq> deg_addr \<longrightarrow>
        fst (snd (Run_refs env ref_addr deg_addr s w)) ref_addr = s ref_addr
        \<and> Run_refs env ref_addr deg_addr s w =
            (fst (Run_signals env (s ref_addr) (s deg_addr) w),
             s(deg_addr := fst (snd (Run_signals env (s ref_addr) (s deg_addr) w))),
             snd (snd (Run_signals env (s ref_addr) (s deg_addr) w))))"
proof -
  have "fst (snd (Run_signals env ref_signal deg_signal w)) =
       (if is_initialized_m (manager w) \<and> sample_rate ref_signal = sample_rate deg_signal
        then fst (GloballyAlign env ref_signal deg_signal) else deg_signal)"
  proof (cases "is_initialized_m (manager w)")
    case False
    then show ?thesis by (simp add: Run_signals_uninitialized)
  next
    case True
    show ?thesis
    proof (cases "sample_rate ref_signal = sample_rate deg_signal")
      case True
      with \<open>is_initialized_m (manager w)\<close> show ?thesis by (simp add: Run_signals_valid)
    next
      case False
      with \<open>is_initialized_m (manager w)\<close> show ?thesis by (simp add: Run_signals_mismatch)
    qed
  qed
  moreover have "\<forall>a. a \<noteq> deg_addr \<longrightarrow> fst (snd (Run_refs env ref_addr deg_addr s w)) a = s a"
    by (simp add: Run_refs_store)
  moreover have "ref_addr \<noteq> deg_addr \<longrightarrow>
        fst (snd (Run_refs env ref_addr deg_addr s w)) ref_addr = s ref_addr
        \<and> Run_refs env ref_addr deg_addr s w =
            (fst (Run_signals env (s ref_addr) (s deg_addr) w),
             s(deg_addr := fst (snd (Run_signals env (s ref_addr) (s deg_addr) w))),
             snd (snd (Run_signals env (s ref_addr) (s deg_addr) w)))"
    using Run_refs_distinct [of ref_addr deg_addr env s w] by (simp add: Run_refs_store)
  ultimately show ?thesis
    using Run_refs_store [of env ref_addr deg_addr s w]
    by (simp add: Run_signals_manager Run_paths_manager Run_batch_manager Run_refs_manager)
qed

theorem Run_changes_only_the_degraded_signal_witness:
  "manager (snd (snd (Run_signals example_env (example_signal 48000 2) (example_signal 48000 2)
                        audio_world))) = manager audio_world
   \<and> manager (snd (Run_paths example_env ''ref.wav'' ''deg.wav'' audio_world)) = manager audio_world
   \<and> manager (snd (Run_batch example_env
                     [\<lparr>reference = ''ref.wav'', degraded = ''deg.wav''\<rparr>] audio_world))
       = manager audio_world
   \<and> fst (snd (Run_signals example_env (example_signal 48000 2) (example_signal 48000 2)
                 audio_world)) = example_signal 48000 3
   \<and> (0::nat) \<noteq> 1
   \<and> fst (snd (Run_refs example_env 0 1 example_store audio_world)) 1 = example_signal 48000 3
   \<and> fst (snd (Run_refs example_env 0 1 example_store audio_world)) 0 = example_signal 48000 2
   \<and> fst (snd (Run_refs example_env 0 0 example_store audio_world)) 0 = example_signal 48000 3
   \<and> fst (snd (Run_refs example_env 0 0 example_store audio_world)) 1 = example_signal 48000 2"
  using Run_changes_only_the_degraded_signal
          [of example_env "example_signal 48000 2" "example_signal 48000 2" audio_world
              "''ref.wav''" "''deg.wav''" "[\<lparr>reference = ''ref.wav'', degraded = ''deg.wav''\<rparr>]"
              0 1 example_store]
        Run_changes_only_the_degraded_signal
          [of example_env "example_signal 48000 2" "example_signal 48000 2" audio_world
              "''ref.wav''" "''deg.wav''" "[\<lparr>reference = ''ref.wav'', degraded = ''deg.wav''\<rparr>]"
              0 0 example_store]
        audio_world_initialized
  by (simp add: example_env_def example_signal_def example_store_def numeral_3_eq_3
      numeral_2_eq_2)

subsection \<open>C6: warnings of the validation are not failures\<close>

lemma speech_world_manager:
  "manager speech_world =
     \<lparr>use_speech_mode_m = True, use_unscaled_speech_mos_mapping_m = False,
      patch_creator_m = Some (VadPatchCreator 20),
      patch_selector_m = Some (ComparisonPatchesSelector NeurogramSimiliarityIndexMeasure),
      spectrogram_builder_m = Some (GammatoneSpectrogramBuilder (GammatoneFilterBank 21 50) True),
      sim_to_qual_m = Some (SpeechSimilarityToQualityMapper True),
      is_initialized_m = True\<rparr>"
  by (simp add: speech_world_def Init_def Let_def InitSimilarityToQualityMapper_def
      InitPatchCreator_def InitPatchSelector_def InitSpectrogramBuilder_def
      start_world_def new_VisqolManager_def SpeechSimilarityToQualityMapper_Init_def
      kPatchSizeSpeech_def kNumBandsSpeech_def kMinimumFreq_def)

lemma example_durations:
  "GetDuration (example_signal 48000 240000) = 5"
  "GetDuration (example_signal 48000 312000) = 13 / 2"
  by (simp_all add: GetDuration_def example_signal_def)

text \<open>
  Claim C6. For two signals with equal sample rates the validation returns success,
  whatever their durations and whatever the sample rate. It logs a warning when the
  durations differ by more than 1.0, a warning in speech mode when the sample rate is
  above 16000, and a warning in full-audio mode when the sample rate is not 48000; all
  it logs are warnings. The comparison goes on: on an initialized manager the
  signal-based \<^verbatim>\<open>Run\<close> returns what the similarity pipeline returns on the reference and
  the aligned degraded signal.
\<close>

theorem warnings_do_not_fail_validation:
  assumes "sample_rate ref_signal = sample_rate deg_signal"
  shows "fst (ValidateInputAudio ref_signal deg_signal w) = Status OK []
     \<and> (\<bar>GetDuration ref_signal - GetDuration deg_signal\<bar> > 1 \<longrightarrow>
          RAW_LOG WARNING (DurationMismatch (GetDuration ref_signal) (GetDuration deg_signal))
            \<in> set (new_events w (snd (ValidateInputAudio ref_signal deg_signal w))))
     \<and> (use_speech_mode_m (manager w) \<and> sample_rate ref_signal > 16000 \<longrightarrow>
          RAW_LOG WARNING SampleRateAbove16kHz
            \<in> set (new_events w (snd (ValidateInputAudio ref_signal deg_signal w))))
     \<and> (\<not> use_speech_mode_m (manager w) \<and> sample_rate ref_signal \<noteq> 48000 \<longrightarrow>
          RAW_LOG WARNING SampleRateNot48kHz
            \<in> set (new_events w (snd (ValidateInputAudio ref_signal deg_signal w))))
     \<and> (\<forall>e \<in> set (new_events w (snd (ValidateInputAudio ref_signal deg_signal w))).
           \<exists>msg. e = RAW_LOG WARNING msg)
     \<and> (is_initialized_m (manager w) \<longrightarrow>
          fst (Run_signals env ref_signal deg_signal w) =
            map_sum id PopulateSimResultMsg
              (CalculateSimilarity env ref_signal (fst (GloballyAlign env ref_signal deg_signal))
                 (spectrogram_builder_m (manager w))
                 (AnalysisWindow (sample_rate ref_signal) kOverlap)
                 (patch_creator_m (manager w)) (patch_selector_m (manager w))
                 (sim_to_qual_m (manager w))))"
proof (intro conjI impI)
  show "fst (ValidateInputAudio ref_signal deg_signal w) = Status OK []"
    using assms by (simp add: ValidateInputAudio_status)
next
  assume "\<bar>GetDuration ref_signal - GetDuration deg_signal\<bar> > 1"
  then show "RAW_LOG WARNING (DurationMismatch (GetDuration ref_signal) (GetDuration deg_signal))
            \<in> set (new_events w (snd (ValidateInputAudio ref_signal deg_signal w)))"
    by (simp add: ValidateInputAudio_new_events kDurationMismatchTolerance_def)
next
  assume "use_speech_mode_m (manager w) \<and> sample_rate ref_signal > 16000"
  then show "RAW_LOG WARNING SampleRateAbove16kHz
            \<in> set (new_events w (snd (ValidateInputAudio ref_signal deg_signal w)))"
    using assms by (simp add: ValidateInputAudio_new_events k16kSampleRate_def)
next
  assume "\<not> use_speech_mode_m (manager w) \<and> sample_rate ref_signal \<noteq> 48000"
  then show "RAW_LOG WARNING SampleRateNot48kHz
            \<in> set (new_events w (snd (ValidateInputAudio ref_signal deg_signal w)))"
    using assms by (simp add: ValidateInputAudio_new_events k48kSampleRate_def)
next
  show "\<forall>e \<in> set (new_events w (snd (ValidateInputAudio ref_signal deg_signal w))).
           \<exists>msg. e = RAW_LOG WARNING msg"
    by (auto simp: ValidateInputAudio_new_events)
next
  assume "is_initialized_m (manager w)"
  then show "fst (Run_signals env ref_signal deg_signal w) =
            map_sum id PopulateSimResultMsg
              (CalculateSimilarity env ref_signal (fst (GloballyAlign env ref_signal deg_signal))
                 (spectrogram_builder_m (manager w))
                 (AnalysisWindow (sample_rate ref_signal) kOverlap)
                 (patch_creator_m (manager w)) (patch_selector_m (manager w))
                 (sim_to_qual_m (manager w)))"
    using assms by (simp add: Run_signals_valid)
qed

theorem warnings_do_not_fail_validation_witness:
  "sample_rate (example_signal 48000 240000) = sample_rate (example_signal 48000 312000)
   \<and> GetDuration (example_signal 48000 240000) = 5
   \<and> GetDuration (example_signal 48000 312000) = 13 / 2
   \<and> fst (ValidateInputAudio (example_signal 48000 240000) (example_signal 48000 312000)
            speech_world) = Status OK []
   \<and> RAW_LOG WARNING (DurationMismatch 5 (13 / 2))
       \<in> set (new_events speech_world
                (snd (ValidateInputAudio (example_signal 48000 240000)
                        (example_signal 48000 312000) speech_world)))
   \<and> use_speech_mode_m (manager speech_world)
   \<and> RAW_LOG WARNING SampleRateAbove16kHz
       \<in> set (new_events speech_world
                (snd (ValidateInputAudio (example_signal 48000 240000)
                        (example_signal 48000 312000) speech_world)))
   \<and> is_initialized_m (manager speech_world)
   \<and> fst (Run_signals example_env (example_signal 48000 240000) (example_signal 48000 312000)
            speech_world) = Inr (PopulateSimResultMsg example_result)
   \<and> \<not> use_speech_mode_m (manager audio_world)
   \<and> sample_rate (example_signal 16000 3) \<noteq> 48000
   \<and> fst (ValidateInputAudio (example_signal 16000 3) (example_signal 16000 3) audio_world)
       = Status OK []
   \<and> RAW_LOG WARNING SampleRateNot48kHz
       \<in> set (new_events audio_world
                (snd (ValidateInputAudio (example_signal 16000 3) (example_signal 16000 3)
                        audio_world)))"
proof -
  have rates: "sample_rate (example_signal 48000 240000) = sample_rate (example_signal 48000 312000)"
    by (simp add: example_signal_def)
  have rate: "sample_rate (example_signal r n) = r" for r n
    by (simp add: example_signal_def)
  have speech: "use_speech_mode_m (manager speech_world)" "is_initialized_m (manager speech_world)"
    by (simp_all add: speech_world_manager)
  have audio: "\<not> use_speech_mode_m (manager audio_world)"
    by (simp add: audio_world_manager)
  have pipeline: "CalculateSimilarity example_env a b c d e f g = Inr example_result"
    for a b c d e f g by (simp add: example_env_def)
  show ?thesis
    using warnings_do_not_fail_validation [OF rates, of speech_world example_env]
          warnings_do_not_fail_validation
            [of "example_signal 16000 3" "example_signal 16000 3" audio_world example_env]
    by (simp add: example_durations rate speech audio pipeline)
qed

subsection \<open>C2 and C5: the batch Run\<close>

lemma Run_batch_loop_results:
  "Run_batch_loop env pairs sim_results w =
     (sim_results @ fst (Run_batch_loop env pairs [] w), snd (Run_batch_loop env pairs [] w))"
proof (induction pairs arbitrary: sim_results w)
  case Nil
  show ?case by simp
next
  case (Cons signal_pair rest)
  obtain r w1 where run: "Run_paths env (reference signal_pair) (degraded signal_pair) w = (r, w1)"
    by (cases "Run_paths env (reference signal_pair) (degraded signal_pair) w")
  show ?case
  proof (cases r)
    case (Inl st)
    let ?w2 = "emit (RAW_LOG ERROR (ErrorExecutingViSQOL st)) w1"
    show ?thesis
      using run Inl Cons.IH [of sim_results ?w2] by (simp add: Let_def)
  next
    case (Inr v)
    show ?thesis
      using run Inr Cons.IH [of "sim_results @ [v]" w1] Cons.IH [of "[v]" w1] by simp
  qed
qed

lemma example_good_pair:
  assumes "is_initialized_m (manager w)"
  shows "fst (Run_paths example_env ''ref.wav'' ''deg.wav'' w) =
           Inr ((PopulateSimResultMsg example_result)
                  \<lparr>msg_reference_filepath := ''ref.wav'', msg_degraded_filepath := ''deg.wav''\<rparr>)"
proof -
  let ?w2 = "emit (Call_LoadAsMono ''deg.wav'') (emit (Call_LoadAsMono ''ref.wav'') w)"
  have init: "is_initialized_m (manager ?w2)" using assms by simp
  have rates: "sample_rate (LoadAsMono example_env ''ref.wav'') = sample_rate (LoadAsMono example_env ''deg.wav'')"
    by (simp add: example_env_def)
  have pipeline: "CalculateSimilarity example_env a b c d e f g = Inr example_result"
    for a b c d e f g by (simp add: example_env_def)
  show ?thesis
    by (simp add: Run_paths_initialized [OF assms] Let_def Run_signals_valid [OF init rates]
        pipeline)
qed

lemma example_bad_pair:
  assumes "is_initialized_m (manager w)"
  shows "fst (Run_paths example_env ''ref.wav'' ''16k.wav'' w) =
           Inl (fst (ValidateInputAudio (example_signal 48000 2) (example_signal 16000 3) w))"
  using Run_paths_mismatch [OF assms example_files_differ]
  by (simp add: example_env_def)

lemma example_bad_pair_code:
  "error_code (fst (ValidateInputAudio (example_signal 48000 2) (example_signal 16000 3) w))
     = INVALID_ARGUMENT"
  by (simp add: ValidateInputAudio_status example_rates_differ)

lemma Run_batch_loop_success:
  "fst (Run_paths env (reference signal_pair) (degraded signal_pair) w) = Inr v \<Longrightarrow>
   Run_batch_loop env (signal_pair # rest) sim_results w =
     Run_batch_loop env rest (sim_results @ [v])
       (snd (Run_paths env (reference signal_pair) (degraded signal_pair) w))"
  by (simp add: case_prod_beta)

lemma runs_through_success:
  "fst (Run_paths env (reference signal_pair) (degraded signal_pair) w) = Inr v \<Longrightarrow>
   runs_through env (signal_pair # rest) w =
     runs_through env rest (snd (Run_paths env (reference signal_pair) (degraded signal_pair) w))"
  by (simp add: case_prod_beta)

lemma Run_batch_loop_comparisons:
  "runs_through env xs w \<Longrightarrow>
   Run_batch_loop env xs sim_results w =
     (sim_results @ successes (fst (comparisons env xs w)), snd (comparisons env xs w))"
proof (induction xs arbitrary: sim_results w)
  case Nil
  show ?case by simp
next
  case (Cons signal_pair rest)
  obtain r w1 where run: "Run_paths env (reference signal_pair) (degraded signal_pair) w = (r, w1)"
    by (cases "Run_paths env (reference signal_pair) (degraded signal_pair) w")
  show ?case
  proof (cases r)
    case (Inl st)
    let ?w2 = "emit (RAW_LOG ERROR (ErrorExecutingViSQOL st)) w1"
    from Cons.prems run Inl have code: "error_code st \<noteq> ABORTED"
      and through: "runs_through env rest ?w2"
      by simp_all
    show ?thesis
      using run Inl code Cons.IH [OF through, of sim_results]
      by (simp add: Let_def case_prod_beta)
  next
    case (Inr v)
    from Cons.prems run Inr have through: "runs_through env rest w1" by simp
    show ?thesis
      using run Inr Cons.IH [OF through, of "sim_results @ [v]"]
      by (simp add: case_prod_beta)
  qed
qed

lemma comparisons_success:
  "fst (Run_paths env (reference signal_pair) (degraded signal_pair) w) = Inr v \<Longrightarrow>
   comparisons env (signal_pair # rest) w =
     (Inr v # fst (comparisons env rest
                     (snd (Run_paths env (reference signal_pair) (degraded signal_pair) w))),
      snd (comparisons env rest
             (snd (Run_paths env (reference signal_pair) (degraded signal_pair) w))))"
  by (simp add: case_prod_beta)

lemma aborting_good_pair:
  assumes "is_initialized_m (manager w)"
  shows "fst (Run_paths aborting_env ''ref.wav'' ''deg.wav'' w) =
           Inr ((PopulateSimResultMsg example_result)
                  \<lparr>msg_reference_filepath := ''ref.wav'', msg_degraded_filepath := ''deg.wav''\<rparr>)"
proof -
  let ?w2 = "emit (Call_LoadAsMono ''deg.wav'') (emit (Call_LoadAsMono ''ref.wav'') w)"
  have init: "is_initialized_m (manager ?w2)" using assms by simp
  have rates: "sample_rate (LoadAsMono aborting_env ''ref.wav'') = sample_rate (LoadAsMono aborting_env ''deg.wav'')"
    by (simp add: aborting_env_def)
  have pipeline: "CalculateSimilarity aborting_env (LoadAsMono aborting_env ''ref.wav'') b c d e f g
                    = Inr example_result"
    for b c d e f g by (simp add: aborting_env_def example_signal_def numeral_2_eq_2)
  show ?thesis
    by (simp add: Run_paths_initialized [OF assms] Let_def Run_signals_valid [OF init rates]
        pipeline)
qed

lemma aborting_empty_pair:
  assumes "is_initialized_m (manager w)"
  shows "fst (Run_paths aborting_env ''empty.wav'' ''deg.wav'' w) =
           Inl (Status ABORTED ''no samples'')"
proof -
  let ?w2 = "emit (Call_LoadAsMono ''deg.wav'') (emit (Call_LoadAsMono ''empty.wav'') w)"
  have init: "is_initialized_m (manager ?w2)" using assms by simp
  have rates: "sample_rate (LoadAsMono aborting_env ''empty.wav'') = sample_rate (LoadAsMono aborting_env ''deg.wav'')"
    by (simp add: aborting_env_def example_signal_def)
  have pipeline: "CalculateSimilarity aborting_env (LoadAsMono aborting_env ''empty.wav'') b c d e f g
                    = Inl (Status ABORTED ''no samples'')"
    for b c d e f g by (simp add: aborting_env_def example_signal_def)
  show ?thesis
    by (simp add: Run_paths_initialized [OF assms] Let_def Run_signals_valid [OF init rates]
        pipeline)
qed

text \<open>
  Claim C2. Let the batch loop reach a pair (no comparison before it returned the code
  \<open>ABORTED\<close>); \<open>outcomes\<close> are the outcomes of the comparisons of the pairs before it, one
  per pair and in order. If the comparison of that pair fails with the code \<open>ABORTED\<close>
  (the code of \<open>NotInitialized\<close>), the batch returns exactly the successful results among
  \<open>outcomes\<close>, which is also what the batch over the earlier pairs alone returns, and its
  last effect is the error it logs for the failing pair: whatever pairs follow, none of
  them is processed.
\<close>

theorem batch_stops_at_NotInitialized:
  assumes "runs_through env xs w"
    and "comparisons env xs w = (outcomes, w1)"
    and "Run_paths env (reference signal_pair) (degraded signal_pair) w1 = (Inl st, w2)"
    and "error_code st = ABORTED"
  shows "Run_batch env xs w = (successes outcomes, w1)
         \<and> Run_batch env (xs @ signal_pair # ys) w =
             (successes outcomes, emit (RAW_LOG ERROR (ErrorExecutingViSQOL st)) w2)"
proof -
  have prefix: "Run_batch_loop env xs [] w = (successes outcomes, w1)"
    using Run_batch_loop_comparisons [OF assms(1), of "[]"] assms(2) by simp
  have "Run_batch env (xs @ signal_pair # ys) w =
          (successes outcomes, emit (RAW_LOG ERROR (ErrorExecutingViSQOL st)) w2)"
    using assms(3,4) prefix by (simp add: Run_batch_def Run_batch_loop_append [OF assms(1)])
  with prefix show ?thesis by (simp add: Run_batch_def)
qed

theorem batch_stops_at_NotInitialized_witness:
  "runs_through aborting_env [\<lparr>reference = ''ref.wav'', degraded = ''deg.wav''\<rparr>] audio_world
   \<and> fst (comparisons aborting_env [\<lparr>reference = ''ref.wav'', degraded = ''deg.wav''\<rparr>]
            audio_world)
       = [Inr ((PopulateSimResultMsg example_result)
                 \<lparr>msg_reference_filepath := ''ref.wav'', msg_degraded_filepath := ''deg.wav''\<rparr>)]
   \<and> fst (Run_paths aborting_env ''empty.wav'' ''deg.wav''
            (snd (comparisons aborting_env [\<lparr>reference = ''ref.wav'', degraded = ''deg.wav''\<rparr>]
                    audio_world)))
       = Inl (Status ABORTED ''no samples'')
   \<and> error_code (Status ABORTED ''no samples'') = ABORTED
   \<and> Run_batch aborting_env
        [\<lparr>reference = ''ref.wav'', degraded = ''deg.wav''\<rparr>,
         \<lparr>reference = ''empty.wav'', degraded = ''deg.wav''\<rparr>,
         \<lparr>reference = ''ref.wav'', degraded = ''deg.wav''\<rparr>] audio_world
       = ([(PopulateSimResultMsg example_result)
             \<lparr>msg_reference_filepath := ''ref.wav'', msg_degraded_filepath := ''deg.wav''\<rparr>],
          emit (RAW_LOG ERROR (ErrorExecutingViSQOL (Status ABORTED ''no samples'')))
            (snd (Run_paths aborting_env ''empty.wav'' ''deg.wav''
                    (snd (comparisons aborting_env
                            [\<lparr>reference = ''ref.wav'', degraded = ''deg.wav''\<rparr>] audio_world)))))
   \<and> runs_through example_env [] start_world
   \<and> comparisons example_env [] start_world = ([], start_world)
   \<and> Run_paths example_env ''ref.wav'' ''deg.wav'' start_world = (Inl NotInitialized, start_world)
   \<and> Run_batch example_env
        [\<lparr>reference = ''ref.wav'', degraded = ''deg.wav''\<rparr>,
         \<lparr>reference = ''ref.wav'', degraded = ''16k.wav''\<rparr>] start_world
       = ([], emit (RAW_LOG ERROR (ErrorExecutingViSQOL NotInitialized)) start_world)"
proof -
  let ?good = "\<lparr>reference = ''ref.wav'', degraded = ''deg.wav''\<rparr>"
  let ?empty = "\<lparr>reference = ''empty.wav'', degraded = ''deg.wav''\<rparr>"
  let ?msg = "(PopulateSimResultMsg example_result)
                \<lparr>msg_reference_filepath := ''ref.wav'', msg_degraded_filepath := ''deg.wav''\<rparr>"
  let ?w1 = "snd (Run_paths aborting_env ''ref.wav'' ''deg.wav'' audio_world)"
  let ?st = "Status ABORTED ''no samples''"
  let ?w2 = "snd (Run_paths aborting_env ''empty.wav'' ''deg.wav'' ?w1)"
  have good: "fst (Run_paths aborting_env (reference ?good) (degraded ?good) audio_world) = Inr ?msg"
    using aborting_good_pair [OF audio_world_initialized] by simp
  have init1: "is_initialized_m (manager ?w1)"
    by (simp add: Run_paths_manager audio_world_initialized)
  have a: "runs_through aborting_env [?good] audio_world"
    unfolding runs_through_success [OF good] by simp
  have "comparisons aborting_env [?good] audio_world =
          (Inr ?msg # fst (comparisons aborting_env []
                             (snd (Run_paths aborting_env (reference ?good) (degraded ?good) audio_world))),
           snd (comparisons aborting_env []
                  (snd (Run_paths aborting_env (reference ?good) (degraded ?good) audio_world))))"
    by (rule comparisons_success [OF good])
  then have b: "comparisons aborting_env [?good] audio_world = ([Inr ?msg], ?w1)"
    by simp
  have "fst (Run_paths aborting_env (reference ?empty) (degraded ?empty) ?w1) = Inl ?st"
    using aborting_empty_pair [OF init1] by simp
  then have c: "Run_paths aborting_env (reference ?empty) (degraded ?empty) ?w1 = (Inl ?st, ?w2)"
    by (simp add: prod_eq_iff)
  have d: "error_code ?st = ABORTED" by simp
  have first: "Run_batch aborting_env ([?good] @ ?empty # [?good]) audio_world =
                 (successes [Inr ?msg], emit (RAW_LOG ERROR (ErrorExecutingViSQOL ?st)) ?w2)"
    using batch_stops_at_NotInitialized [OF a b c d, of "[?good]"] by simp
  have a0: "runs_through example_env [] start_world" by simp
  have b0: "comparisons example_env [] start_world = ([], start_world)" by simp
  have c0: "Run_paths example_env (reference ?good) (degraded ?good) start_world
           = (Inl NotInitialized, start_world)"
    by (simp add: Run_paths_uninitialized [OF start_world_uninitialized])
  have d0: "error_code NotInitialized = ABORTED" by simp
  have second: "Run_batch example_env ([] @ ?good # [\<lparr>reference = ''ref.wav'', degraded = ''16k.wav''\<rparr>])
                  start_world
                = (successes [], emit (RAW_LOG ERROR (ErrorExecutingViSQOL NotInitialized)) start_world)"
    using batch_stops_at_NotInitialized
            [OF a0 b0 c0 d0, of "[\<lparr>reference = ''ref.wav'', degraded = ''16k.wav''\<rparr>]"] by simp
  have f2: "fst (comparisons aborting_env [?good] audio_world) = [Inr ?msg]"
    unfolding b by simp
  have f3: "fst (Run_paths aborting_env ''empty.wav'' ''deg.wav''
                   (snd (comparisons aborting_env [?good] audio_world))) = Inl ?st"
    unfolding b snd_conv by (rule aborting_empty_pair [OF init1])
  have f5: "Run_batch aborting_env [?good, ?empty, ?good] audio_world =
              ([?msg], emit (RAW_LOG ERROR (ErrorExecutingViSQOL ?st))
                         (snd (Run_paths aborting_env ''empty.wav'' ''deg.wav''
                                 (snd (comparisons aborting_env [?good] audio_world)))))"
    unfolding b snd_conv using first by simp
  have f8: "Run_paths example_env ''ref.wav'' ''deg.wav'' start_world
              = (Inl NotInitialized, start_world)"
    by (rule Run_paths_uninitialized [OF start_world_uninitialized])
  have f9: "Run_batch example_env [?good, \<lparr>reference = ''ref.wav'', degraded = ''16k.wav''\<rparr>]
              start_world
            = ([], emit (RAW_LOG ERROR (ErrorExecutingViSQOL NotInitialized)) start_world)"
    using second by simp
  show ?thesis
    by (intro conjI) (fact a f2 f3 d f5 a0 b0 f8 f9)+
qed

text \<open>
  Claim C5. Let the batch loop reach a pair, with the results \<open>rs\<close> collected from the
  pairs before it. If the comparison of that pair fails with a code other than
  \<open>ABORTED\<close>, the error is logged, the pair adds nothing to the results, and the loop
  goes on with the pairs after it: the batch returns \<open>rs\<close> followed by the results of the
  batch over the remaining pairs, run from the world in which the error has been logged.
\<close>

theorem batch_skips_other_failures:
  assumes "runs_through env xs w"
    and "Run_batch env xs w = (rs, w1)"
    and "Run_paths env (reference signal_pair) (degraded signal_pair) w1 = (Inl st, w2)"
    and "error_code st \<noteq> ABORTED"
  shows "Run_batch env (xs @ signal_pair # ys) w =
           (rs @ fst (Run_batch env ys (emit (RAW_LOG ERROR (ErrorExecutingViSQOL st)) w2)),
            snd (Run_batch env ys (emit (RAW_LOG ERROR (ErrorExecutingViSQOL st)) w2)))"
proof -
  let ?w3 = "emit (RAW_LOG ERROR (ErrorExecutingViSQOL st)) w2"
  have "Run_batch env (xs @ signal_pair # ys) w = Run_batch_loop env ys rs ?w3"
    using assms(2-4) by (simp add: Run_batch_def Run_batch_loop_append [OF assms(1)])
  also have "\<dots> = (rs @ fst (Run_batch_loop env ys [] ?w3), snd (Run_batch_loop env ys [] ?w3))"
    by (rule Run_batch_loop_results)
  finally show ?thesis by (simp add: Run_batch_def)
qed

theorem batch_skips_other_failures_witness:
  "runs_through example_env [\<lparr>reference = ''ref.wav'', degraded = ''deg.wav''\<rparr>] audio_world
   \<and> error_code (fst (ValidateInputAudio (example_signal 48000 2) (example_signal 16000 3)
                        (snd (Run_paths example_env ''ref.wav'' ''deg.wav'' audio_world))))
       \<noteq> ABORTED
   \<and> fst (Run_batch example_env
            [\<lparr>reference = ''ref.wav'', degraded = ''deg.wav''\<rparr>,
             \<lparr>reference = ''ref.wav'', degraded = ''16k.wav''\<rparr>,
             \<lparr>reference = ''ref.wav'', degraded = ''deg.wav''\<rparr>] audio_world)
       = [(PopulateSimResultMsg example_result)
            \<lparr>msg_reference_filepath := ''ref.wav'', msg_degraded_filepath := ''deg.wav''\<rparr>,
          (PopulateSimResultMsg example_result)
            \<lparr>msg_reference_filepath := ''ref.wav'', msg_degraded_filepath := ''deg.wav''\<rparr>]"
proof -
  let ?good = "\<lparr>reference = ''ref.wav'', degraded = ''deg.wav''\<rparr>"
  let ?bad = "\<lparr>reference = ''ref.wav'', degraded = ''16k.wav''\<rparr>"
  let ?msg = "(PopulateSimResultMsg example_result)
                \<lparr>msg_reference_filepath := ''ref.wav'', msg_degraded_filepath := ''deg.wav''\<rparr>"
  let ?w1 = "snd (Run_paths example_env ''ref.wav'' ''deg.wav'' audio_world)"
  let ?st = "fst (ValidateInputAudio (example_signal 48000 2) (example_signal 16000 3) ?w1)"
  let ?w2 = "snd (Run_paths example_env ''ref.wav'' ''16k.wav'' ?w1)"
  let ?w3 = "emit (RAW_LOG ERROR (ErrorExecutingViSQOL ?st)) ?w2"
  have good: "fst (Run_paths example_env (reference ?good) (degraded ?good) w) = Inr ?msg"
    if "is_initialized_m (manager w)" for w
    using example_good_pair [OF that] by simp
  have init1: "is_initialized_m (manager ?w1)"
    by (simp add: Run_paths_manager audio_world_initialized)
  have init3: "is_initialized_m (manager ?w3)"
    by (simp add: Run_paths_manager audio_world_initialized)
  have a: "runs_through example_env [?good] audio_world"
    unfolding runs_through_success [OF good [OF audio_world_initialized]] by simp
  have "Run_batch_loop example_env [?good] [] audio_world =
          Run_batch_loop example_env [] ([] @ [?msg])
            (snd (Run_paths example_env (reference ?good) (degraded ?good) audio_world))"
    by (rule Run_batch_loop_success [OF good [OF audio_world_initialized]])
  then have b: "Run_batch example_env [?good] audio_world = ([?msg], ?w1)"
    by (simp add: Run_batch_def)
  have "fst (Run_paths example_env (reference ?bad) (degraded ?bad) ?w1) = Inl ?st"
    using example_bad_pair [OF init1] by simp
  then have c: "Run_paths example_env (reference ?bad) (degraded ?bad) ?w1 = (Inl ?st, ?w2)"
    by (simp add: prod_eq_iff)
  have d: "error_code ?st \<noteq> ABORTED"
    by (simp add: example_bad_pair_code)
  have "Run_batch_loop example_env [?good] [] ?w3 =
          Run_batch_loop example_env [] ([] @ [?msg])
            (snd (Run_paths example_env (reference ?good) (degraded ?good) ?w3))"
    by (rule Run_batch_loop_success [OF good [OF init3]])
  then have e: "fst (Run_batch example_env [?good] ?w3) = [?msg]"
    by (simp add: Run_batch_def)
  have "Run_batch example_env ([?good] @ ?bad # [?good]) audio_world =
          ([?msg] @ fst (Run_batch example_env [?good] ?w3),
           snd (Run_batch example_env [?good] ?w3))"
    by (rule batch_skips_other_failures [OF a b c d])
  then have "fst (Run_batch example_env [?good, ?bad, ?good] audio_world) = [?msg, ?msg]"
    by (simp add: e)
  with a d show ?thesis by simp
qed

subsection \<open>C7 and C8: what Init configures\<close>

lemma Init_components:
  "patch_creator_m (manager (snd (Init env model_path speech unscaled w))) =
     Some (if speech then VadPatchCreator kPatchSizeSpeech else ImagePatchCreator kPatchSize)"
  "patch_selector_m (manager (snd (Init env model_path speech unscaled w))) =
     Some (ComparisonPatchesSelector NeurogramSimiliarityIndexMeasure)"
  "spectrogram_builder_m (manager (snd (Init env model_path speech unscaled w))) =
     Some (if speech
           then GammatoneSpectrogramBuilder (GammatoneFilterBank kNumBandsSpeech kMinimumFreq) True
           else GammatoneSpectrogramBuilder (GammatoneFilterBank kNumBandsAudio kMinimumFreq) False)"
  "sim_to_qual_m (manager (snd (Init env model_path speech unscaled w))) =
     Some (if speech then SpeechSimilarityToQualityMapper (\<not> unscaled)
           else SvrSimilarityToQualityMapper model_path)"
  "use_speech_mode_m (manager (snd (Init env model_path speech unscaled w))) = speech"
  "use_unscaled_speech_mos_mapping_m (manager (snd (Init env model_path speech unscaled w))) = unscaled"
  by (simp_all add: Init_def Let_def case_prod_beta InitSimilarityToQualityMapper_def
      InitPatchCreator_def InitPatchSelector_def InitSpectrogramBuilder_def)

lemma Init_trace:
  "trace (snd (Init env model_path speech unscaled w)) =
     trace w
     @ Call_MapperInit (if speech then SpeechSimilarityToQualityMapper (\<not> unscaled)
                        else SvrSimilarityToQualityMapper model_path)
       # (if ok (fst (Init env model_path speech unscaled w)) then []
          else [RAW_LOG ERROR (InitFailed (error_message (fst (Init env model_path speech unscaled w))))])"
  by (simp add: Init_def Let_def case_prod_beta InitSimilarityToQualityMapper_def
      InitPatchCreator_def InitPatchSelector_def InitSpectrogramBuilder_def)

lemma last_new_event:
  "trace w1 = trace w @ es \<Longrightarrow> es \<noteq> [] \<Longrightarrow> last (trace w1) = last es"
  by simp

text \<open>
  Claim C7. After \<^verbatim>\<open>Init\<close> (whether it succeeds or not) the patch creator, the
  spectrogram builder and the patch selector are determined by the mode flag alone: in
  full-audio mode a filterbank of 32 bands with a minimum frequency of 50 and patches of
  30 frames, in speech mode a filterbank of 21 bands and patches of 20 frames. A
  comparison that follows a successful \<^verbatim>\<open>Init\<close> and passes the validation hands these
  components to the similarity pipeline together with an analysis window whose overlap
  is 0.25, in either mode.
\<close>

theorem configuration_follows_mode:
  "patch_creator_m (manager (snd (Init env model_path speech unscaled w))) =
     Some (if speech then VadPatchCreator 20 else ImagePatchCreator 30)
   \<and> spectrogram_builder_m (manager (snd (Init env model_path speech unscaled w))) =
       Some (if speech then GammatoneSpectrogramBuilder (GammatoneFilterBank 21 50) True
             else GammatoneSpectrogramBuilder (GammatoneFilterBank 32 50) False)
   \<and> patch_selector_m (manager (snd (Init env model_path speech unscaled w))) =
       Some (ComparisonPatchesSelector NeurogramSimiliarityIndexMeasure)
   \<and> use_speech_mode_m (manager (snd (Init env model_path speech unscaled w))) = speech
   \<and> (ok (fst (Init env model_path speech unscaled w))
        \<and> sample_rate ref_signal = sample_rate deg_signal \<longrightarrow>
      last (trace (snd (snd (Run_signals env ref_signal deg_signal
                               (snd (Init env model_path speech unscaled w)))))) =
        Call_CalculateSimilarity ref_signal (fst (GloballyAlign env ref_signal deg_signal))
          (Some (if speech then GammatoneSpectrogramBuilder (GammatoneFilterBank 21 50) True
                 else GammatoneSpectrogramBuilder (GammatoneFilterBank 32 50) False))
          (AnalysisWindow (sample_rate ref_signal) 0.25)
          (Some (if speech then VadPatchCreator 20 else ImagePatchCreator 30))
          (Some (ComparisonPatchesSelector NeurogramSimiliarityIndexMeasure))
          (Some (if speech then SpeechSimilarityToQualityMapper (\<not> unscaled)
                 else SvrSimilarityToQualityMapper model_path)))"
proof (intro conjI impI)
  let ?w1 = "snd (Init env model_path speech unscaled w)"
  assume h: "ok (fst (Init env model_path speech unscaled w))
             \<and> sample_rate ref_signal = sample_rate deg_signal"
  then have init: "is_initialized_m (manager ?w1)"
    by (simp add: Init_is_initialized)
  from h have rates: "sample_rate ref_signal = sample_rate deg_signal" by simp
  show "last (trace (snd (snd (Run_signals env ref_signal deg_signal ?w1)))) =
        Call_CalculateSimilarity ref_signal (fst (GloballyAlign env ref_signal deg_signal))
          (Some (if speech then GammatoneSpectrogramBuilder (GammatoneFilterBank 21 50) True
                 else GammatoneSpectrogramBuilder (GammatoneFilterBank 32 50) False))
          (AnalysisWindow (sample_rate ref_signal) 0.25)
          (Some (if speech then VadPatchCreator 20 else ImagePatchCreator 30))
          (Some (ComparisonPatchesSelector NeurogramSimiliarityIndexMeasure))
          (Some (if speech then SpeechSimilarityToQualityMapper (\<not> unscaled)
                 else SvrSimilarityToQualityMapper model_path))"
    by (simp add: Run_signals_valid [OF init rates] Init_components kOverlap_def
        kPatchSize_def kPatchSizeSpeech_def kNumBandsAudio_def kNumBandsSpeech_def
        kMinimumFreq_def)
qed (simp_all add: Init_components kPatchSize_def kPatchSizeSpeech_def kNumBandsAudio_def
      kNumBandsSpeech_def kMinimumFreq_def)

theorem configuration_follows_mode_witness:
  "ok (fst (Init example_env ''model.txt'' False False start_world))
   \<and> sample_rate (example_signal 48000 2) = sample_rate (example_signal 48000 2)
   \<and> patch_creator_m (manager audio_world) = Some (ImagePatchCreator 30)
   \<and> spectrogram_builder_m (manager audio_world) =
       Some (GammatoneSpectrogramBuilder (GammatoneFilterBank 32 50) False)
   \<and> last (trace (snd (snd (Run_signals example_env (example_signal 48000 2)
                               (example_signal 48000 2) audio_world)))) =
       Call_CalculateSimilarity (example_signal 48000 2) (example_signal 48000 3)
         (Some (GammatoneSpectrogramBuilder (GammatoneFilterBank 32 50) False))
         (AnalysisWindow 48000 0.25)
         (Some (ImagePatchCreator 30))
         (Some (ComparisonPatchesSelector NeurogramSimiliarityIndexMeasure))
         (Some (SvrSimilarityToQualityMapper ''model.txt''))
   \<and> ok (fst (Init example_env [] True False start_world))
   \<and> patch_creator_m (manager speech_world) = Some (VadPatchCreator 20)
   \<and> spectrogram_builder_m (manager speech_world) =
       Some (GammatoneSpectrogramBuilder (GammatoneFilterBank 21 50) True)
   \<and> last (trace (snd (snd (Run_signals example_env (example_signal 48000 2)
                               (example_signal 48000 2) speech_world)))) =
       Call_CalculateSimilarity (example_signal 48000 2) (example_signal 48000 3)
         (Some (GammatoneSpectrogramBuilder (GammatoneFilterBank 21 50) True))
         (AnalysisWindow 48000 0.25)
         (Some (VadPatchCreator 20))
         (Some (ComparisonPatchesSelector NeurogramSimiliarityIndexMeasure))
         (Some (SpeechSimilarityToQualityMapper True))"
proof -
  have ok1: "ok (fst (Init example_env ''model.txt'' False False start_world))"
    by (simp add: Init_status example_model_loads)
  have ok2: "ok (fst (Init example_env [] True False start_world))"
    by (simp add: Init_status)
  have aligned: "fst (GloballyAlign example_env (example_signal 48000 2) (example_signal 48000 2))
                   = example_signal 48000 3"
    by (simp add: example_env_def example_signal_def numeral_3_eq_3 numeral_2_eq_2)
  have rate: "sample_rate (example_signal 48000 2) = 48000"
    by (simp add: example_signal_def)
  show ?thesis
    using configuration_follows_mode
            [of example_env "''model.txt''" False False start_world
                "example_signal 48000 2" "example_signal 48000 2"]
          configuration_follows_mode
            [of example_env "[]" True False start_world
                "example_signal 48000 2" "example_signal 48000 2"]
          ok1 ok2
    by (simp add: aligned rate audio_world_def [symmetric] speech_world_def [symmetric])
qed

text \<open>
  Claim C8. \<^verbatim>\<open>Init\<close> constructs the mapper from the mode flag and calls its
  initialization once: in speech mode the speech mapper, built from the scaling flag and
  not from the model path, and \<^verbatim>\<open>Init\<close> succeeds whatever the model path and the
  collaborators are; in full-audio mode the regression mapper of the model path, and
  \<^verbatim>\<open>Init\<close> returns what loading that model returns, setting the initialization flag only
  if the load succeeded. No comparison call (signal-based, path-based or batch) changes
  the mapper.
\<close>

theorem mapper_is_chosen_at_Init:
  "sim_to_qual_m (manager (snd (Init env model_path speech unscaled w))) =
     Some (if speech then SpeechSimilarityToQualityMapper (\<not> unscaled)
           else SvrSimilarityToQualityMapper model_path)
   \<and> new_events w (snd (Init env model_path speech unscaled w)) =
       Call_MapperInit (if speech then SpeechSimilarityToQualityMapper (\<not> unscaled)
                        else SvrSimilarityToQualityMapper model_path)
       # (if ok (fst (Init env model_path speech unscaled w)) then []
          else [RAW_LOG ERROR (InitFailed (error_message (fst (Init env model_path speech unscaled w))))])
   \<and> fst (Init env model_path True unscaled w) = Status OK []
   \<and> is_initialized_m (manager (snd (Init env model_path True unscaled w)))
   \<and> fst (Init env model_path False unscaled w) = SvrSimilarityToQualityMapper_Init env model_path
   \<and> is_initialized_m (manager (snd (Init env model_path False unscaled w))) =
       (ok (SvrSimilarityToQualityMapper_Init env model_path) \<or> is_initialized_m (manager w))
   \<and> sim_to_qual_m (manager (snd (snd (Run_signals env ref_signal deg_signal w)))) =
       sim_to_qual_m (manager w)
   \<and> sim_to_qual_m (manager (snd (Run_paths env ref_signal_path deg_signal_path w))) =
       sim_to_qual_m (manager w)
   \<and> sim_to_qual_m (manager (snd (Run_batch env signals_to_compare w))) =
       sim_to_qual_m (manager w)"
proof (intro conjI)
  show "new_events w (snd (Init env model_path speech unscaled w)) =
       Call_MapperInit (if speech then SpeechSimilarityToQualityMapper (\<not> unscaled)
                        else SvrSimilarityToQualityMapper model_path)
       # (if ok (fst (Init env model_path speech unscaled w)) then []
          else [RAW_LOG ERROR (InitFailed (error_message (fst (Init env model_path speech unscaled w))))])"
    by (rule new_events_eq) (rule Init_trace)
qed (simp_all add: Init_components Init_status Init_is_initialized
      Run_signals_manager Run_paths_manager Run_batch_manager)

theorem mapper_is_chosen_at_Init_witness:
  "sim_to_qual_m (manager (snd (Init example_env ''none'' False False start_world))) =
     Some (SvrSimilarityToQualityMapper ''none'')
   \<and> fst (Init example_env ''none'' False False start_world) = Status INVALID_ARGUMENT ''no model''
   \<and> \<not> is_initialized_m (manager (snd (Init example_env ''none'' False False start_world)))
   \<and> sim_to_qual_m (manager (snd (Init example_env ''none'' True False start_world))) =
       Some (SpeechSimilarityToQualityMapper True)
   \<and> fst (Init example_env ''none'' True False start_world) = Status OK []
   \<and> is_initialized_m (manager (snd (Init example_env ''none'' True False start_world)))"
  using mapper_is_chosen_at_Init
          [of example_env "''none''" False False start_world
              "example_signal 48000 2" "example_signal 48000 2" "[]" "[]" "[]"]
        mapper_is_chosen_at_Init
          [of example_env "''none''" True False start_world
              "example_signal 48000 2" "example_signal 48000 2" "[]" "[]" "[]"]
  by (simp add: example_model_missing start_world_uninitialized)

end
